theory Spec2Isabelle
  imports Complex_Main "HOL-Library.Multiset" "HOL-Library.Sublist"
begin

section \<open>JavaScript numbers\<close>

text \<open>
  A JavaScript number is \<open>NaN\<close>, a finite number, or one of the two infinities
  (\<open>Infinity True\<close> is \<open>+Infinity\<close>). The finite numbers of a program are doubles; the
  type carries a real, and every operation that rounds does so through the engine below.
  The sign of zero is not modelled.
\<close>

datatype jsnum = NaN | Num real | Infinity bool

text \<open>Truthiness of a number (\<open>if (x)\<close>, \<open>x && y\<close>): \<open>0\<close> and \<open>NaN\<close> are falsy.\<close>

fun js_truthy :: "jsnum \<Rightarrow> bool" where
  "js_truthy NaN = False"
| "js_truthy (Num r) = (r \<noteq> 0)"
| "js_truthy (Infinity s) = True"

text \<open>
  The operators \<open><\<close>, \<open><=\<close> and \<open>==\<close> on numbers: they are exact, and every
  comparison with \<open>NaN\<close> is false.
\<close>

fun js_lt :: "jsnum \<Rightarrow> jsnum \<Rightarrow> bool" where
  "js_lt (Num a) (Num b) = (a < b)"
| "js_lt (Num a) (Infinity s) = s"
| "js_lt (Infinity s) (Num b) = (\<not> s)"
| "js_lt (Infinity s) (Infinity s') = (\<not> s \<and> s')"
| "js_lt NaN y = False"
| "js_lt x NaN = False"

fun js_le :: "jsnum \<Rightarrow> jsnum \<Rightarrow> bool" where
  "js_le (Num a) (Num b) = (a \<le> b)"
| "js_le (Num a) (Infinity s) = s"
| "js_le (Infinity s) (Num b) = (\<not> s)"
| "js_le (Infinity s) (Infinity s') = (s \<longrightarrow> s')"
| "js_le NaN y = False"
| "js_le x NaN = False"

fun js_eq :: "jsnum \<Rightarrow> jsnum \<Rightarrow> bool" where
  "js_eq (Num a) (Num b) = (a = b)"
| "js_eq (Infinity s) (Infinity s') = (s = s')"
| "js_eq x y = False"

text \<open>Unary minus, \<open>Math.floor\<close> and \<open>Math.max\<close> of two arguments are exact.\<close>

fun js_neg :: "jsnum \<Rightarrow> jsnum" where
  "js_neg NaN = NaN"
| "js_neg (Num r) = Num (- r)"
| "js_neg (Infinity s) = Infinity (\<not> s)"

fun js_floor :: "jsnum \<Rightarrow> jsnum" where
  "js_floor (Num r) = Num (of_int \<lfloor>r\<rfloor>)"
| "js_floor x = x"

fun js_max :: "jsnum \<Rightarrow> jsnum \<Rightarrow> jsnum" where
  "js_max (Num a) (Num b) = Num (max a b)"
| "js_max NaN y = NaN"
| "js_max x NaN = NaN"
| "js_max (Infinity s) y = (if s then Infinity True else y)"
| "js_max x (Infinity s) = (if s then Infinity True else x)"

section \<open>Data model\<close>

text \<open>
  The fields of a teacher profile that the Match Engine reads; the field \<open>id\<close> is
  \<open>id_field\<close> here. Coordinates are stored as nullable decimal strings;
  \<open>isActive\<close> is read through \<open>!teacher.isActive\<close>, so a missing flag counts as
  \<open>False\<close>; \<open>maxDistance\<close> is a nullable integer.
\<close>

record TeacherWithUser =
  id_field :: int
  isActive :: bool
  gradeLevel :: string
  currentDistrict :: string
  currentLatitude :: "string option"
  currentLongitude :: "string option"
  currentSchoolLatitude :: "string option"
  currentSchoolLongitude :: "string option"
  homeDistrict :: string
  homeLatitude :: "string option"
  homeLongitude :: "string option"
  preferredDistricts :: "string list"
  preferredLocationLatitude :: "string option"
  preferredLocationLongitude :: "string option"
  maxDistance :: "int option"

datatype matchType_t = perfect | nearby

record MatchResult =
  teacher :: TeacherWithUser
  matchType :: matchType_t
  distance :: jsnum
  score :: jsnum

section \<open>The JavaScript engine\<close>

text \<open>
  What the program takes from the engine that runs it, as a parameter \<open>J\<close> of every
  function that computes with numbers or sorts:
  \<^item> \<open>rnd\<close>, the double nearest to a real (\<open>+Infinity\<close> or \<open>-Infinity\<close> on overflow),
    applied to the exact result of every arithmetic operation and to the value of every
    decimal literal;
  \<^item> \<open>sin_impl\<close>, \<open>cos_impl\<close>, \<open>sqrt_impl\<close> and \<open>atan2_impl\<close>, the engine's
    approximations behind \<open>Math.sin\<close>, \<open>Math.cos\<close>, \<open>Math.sqrt\<close> (on a finite
    argument) and \<open>Math.atan2\<close>;
  \<^item> \<open>sort_impl\<close>, the order in which \<open>Array.prototype.sort\<close> leaves an array of match
    results when the comparison function is not a consistent comparator.
\<close>

record engine =
  rnd :: "real \<Rightarrow> jsnum"
  sin_impl :: "real \<Rightarrow> jsnum"
  cos_impl :: "real \<Rightarrow> jsnum"
  sqrt_impl :: "real \<Rightarrow> jsnum"
  atan2_impl :: "jsnum \<Rightarrow> jsnum \<Rightarrow> jsnum"
  sort_impl :: "(MatchResult \<Rightarrow> MatchResult \<Rightarrow> jsnum) \<Rightarrow> MatchResult list \<Rightarrow> MatchResult list"

text \<open>
  The arithmetic operators: the exact result, rounded; the cases with \<open>NaN\<close> and the
  infinities are those of IEEE 754.
\<close>

fun fp_add :: "engine \<Rightarrow> jsnum \<Rightarrow> jsnum \<Rightarrow> jsnum" where
  "fp_add J (Num a) (Num b) = rnd J (a + b)"
| "fp_add J (Infinity s) (Num b) = Infinity s"
| "fp_add J (Num a) (Infinity s) = Infinity s"
| "fp_add J (Infinity s) (Infinity s') = (if s = s' then Infinity s else NaN)"
| "fp_add J NaN y = NaN"
| "fp_add J x NaN = NaN"

fun fp_sub :: "engine \<Rightarrow> jsnum \<Rightarrow> jsnum \<Rightarrow> jsnum" where
  "fp_sub J (Num a) (Num b) = rnd J (a - b)"
| "fp_sub J (Infinity s) (Num b) = Infinity s"
| "fp_sub J (Num a) (Infinity s) = Infinity (\<not> s)"
| "fp_sub J (Infinity s) (Infinity s') = (if s = s' then NaN else Infinity s)"
| "fp_sub J NaN y = NaN"
| "fp_sub J x NaN = NaN"

fun fp_mul :: "engine \<Rightarrow> jsnum \<Rightarrow> jsnum \<Rightarrow> jsnum" where
  "fp_mul J (Num a) (Num b) = rnd J (a * b)"
| "fp_mul J (Infinity s) (Num b) = (if b = 0 then NaN else Infinity (s = (0 < b)))"
| "fp_mul J (Num a) (Infinity s) = (if a = 0 then NaN else Infinity (s = (0 < a)))"
| "fp_mul J (Infinity s) (Infinity s') = Infinity (s = s')"
| "fp_mul J NaN y = NaN"
| "fp_mul J x NaN = NaN"

fun fp_div :: "engine \<Rightarrow> jsnum \<Rightarrow> jsnum \<Rightarrow> jsnum" where
  "fp_div J (Num a) (Num b) =
     (if b = 0 then (if a = 0 then NaN else Infinity (0 < a)) else rnd J (a / b))"
| "fp_div J (Infinity s) (Num b) = Infinity (s = (0 \<le> b))"
| "fp_div J (Num a) (Infinity s) = Num 0"
| "fp_div J (Infinity s) (Infinity s') = NaN"
| "fp_div J NaN y = NaN"
| "fp_div J x NaN = NaN"

text \<open>
  The functions of \<open>Math\<close>, with the cases that the language fixes: \<open>NaN\<close> in gives
  \<open>NaN\<close> out, the sine and cosine of an infinity and the square root of a negative
  number are \<open>NaN\<close>, the square root of \<open>+Infinity\<close> is \<open>+Infinity\<close>.
\<close>

fun Math_sin :: "engine \<Rightarrow> jsnum \<Rightarrow> jsnum" where
  "Math_sin J (Num a) = sin_impl J a"
| "Math_sin J x = NaN"

fun Math_cos :: "engine \<Rightarrow> jsnum \<Rightarrow> jsnum" where
  "Math_cos J (Num a) = cos_impl J a"
| "Math_cos J x = NaN"

fun Math_sqrt :: "engine \<Rightarrow> jsnum \<Rightarrow> jsnum" where
  "Math_sqrt J (Num a) = (if a < 0 then NaN else sqrt_impl J a)"
| "Math_sqrt J (Infinity s) = (if s then Infinity True else NaN)"
| "Math_sqrt J NaN = NaN"

definition Math_atan2 :: "engine \<Rightarrow> jsnum \<Rightarrow> jsnum \<Rightarrow> jsnum" where
  "Math_atan2 J y x = (if y = NaN \<or> x = NaN then NaN else atan2_impl J y x)"

definition Math_PI :: "engine \<Rightarrow> jsnum" where
  "Math_PI J = rnd J pi"

section \<open>Strings\<close>

text \<open>
  A string is a list of 8-bit characters, read as the code units U+0000 to U+00FF.
  A nullable string field is a \<open>string option\<close>; it is truthy when it is neither
  \<open>null\<close> nor the empty string.
\<close>

definition str_truthy :: "string option \<Rightarrow> bool" where
  "str_truthy s = (case s of None \<Rightarrow> False | Some cs \<Rightarrow> cs \<noteq> [])"

text \<open>White space and line terminators (the class \<open>\s\<close>, and what \<open>parseFloat\<close> skips).\<close>

definition is_space :: "char \<Rightarrow> bool" where
  "is_space c = (of_char c \<in> set [9, 10, 11, 12, 13, 32, 160 :: nat])"

definition is_digit :: "char \<Rightarrow> bool" where
  "is_digit c = (48 \<le> (of_char c :: nat) \<and> (of_char c :: nat) \<le> 57)"

definition digits_val :: "string \<Rightarrow> nat" where
  "digits_val ds = foldl (\<lambda>n c. 10 * n + (of_char c - 48)) 0 ds"

definition starts_with :: "char \<Rightarrow> string \<Rightarrow> bool" where
  "starts_with c s = (case s of [] \<Rightarrow> False | x # _ \<Rightarrow> x = c)"

text \<open>
  \<open>parseFloat\<close>: skip leading white space, then read the longest prefix that is a
  decimal literal (optional sign; \<open>Infinity\<close>, or digits with an optional fraction and an
  optional exponent); \<open>NaN\<close> when there is no such prefix. \<open>literal_value\<close> is the
  mathematical value of the literal, which \<open>parseFloat\<close> rounds to a double.
\<close>

definition exponent_part :: "string \<Rightarrow> real" where
  "exponent_part r =
     (if starts_with (CHR ''e'') r \<or> starts_with (CHR ''E'') r then
        (let r' = tl r in
         if starts_with (CHR ''-'') r' then
           (if takeWhile is_digit (tl r') = [] then 1
            else 1 / 10 ^ digits_val (takeWhile is_digit (tl r')))
         else if starts_with (CHR ''+'') r' then
           (if takeWhile is_digit (tl r') = [] then 1
            else 10 ^ digits_val (takeWhile is_digit (tl r')))
         else
           (if takeWhile is_digit r' = [] then 1
            else 10 ^ digits_val (takeWhile is_digit r')))
      else 1)"

definition unsigned_value :: "string \<Rightarrow> jsnum" where
  "unsigned_value s =
     (if take 8 s = ''Infinity'' then Infinity True
      else
        (let ip = takeWhile is_digit s;
             r1 = dropWhile is_digit s;
             has_dot = starts_with (CHR ''.'') r1;
             fp = (if has_dot then takeWhile is_digit (tl r1) else []);
             r2 = (if has_dot then dropWhile is_digit (tl r1) else r1)
         in if ip = [] \<and> fp = [] then NaN
            else Num ((real (digits_val ip) + real (digits_val fp) / 10 ^ length fp)
                      * exponent_part r2)))"

definition literal_value :: "string \<Rightarrow> jsnum" where
  "literal_value s =
     (let t = dropWhile is_space s in
      if starts_with (CHR ''-'') t then js_neg (unsigned_value (tl t))
      else if starts_with (CHR ''+'') t then unsigned_value (tl t)
      else unsigned_value t)"

definition parseFloat :: "engine \<Rightarrow> string \<Rightarrow> jsnum" where
  "parseFloat J s = (case literal_value s of Num v \<Rightarrow> rnd J v | x \<Rightarrow> x)"

section \<open>Distance Calculator\<close>

definition toRadians :: "engine \<Rightarrow> jsnum \<Rightarrow> jsnum" where
  "toRadians J degrees = fp_mul J degrees (fp_div J (Math_PI J) (Num 180))"

text \<open>The constant \<open>a\<close> of \<open>haversineDistance\<close>, and the function.\<close>

definition haversine_a :: "engine \<Rightarrow> jsnum \<Rightarrow> jsnum \<Rightarrow> jsnum \<Rightarrow> jsnum \<Rightarrow> jsnum" where
  "haversine_a J lat1 lon1 lat2 lon2 =
     (let dLat = toRadians J (fp_sub J lat2 lat1);
          dLon = toRadians J (fp_sub J lon2 lon1)
      in fp_add J
           (fp_mul J (Math_sin J (fp_div J dLat (Num 2))) (Math_sin J (fp_div J dLat (Num 2))))
           (fp_mul J
              (fp_mul J
                 (fp_mul J (Math_cos J (toRadians J lat1)) (Math_cos J (toRadians J lat2)))
                 (Math_sin J (fp_div J dLon (Num 2))))
              (Math_sin J (fp_div J dLon (Num 2)))))"

definition haversineDistance ::
    "engine \<Rightarrow> jsnum \<Rightarrow> jsnum \<Rightarrow> jsnum \<Rightarrow> jsnum \<Rightarrow> jsnum" where
  "haversineDistance J lat1 lon1 lat2 lon2 =
     (let R = Num 6371;
          a = haversine_a J lat1 lon1 lat2 lon2;
          c = fp_mul J (Num 2)
                (Math_atan2 J (Math_sqrt J a) (Math_sqrt J (fp_sub J (Num 1) a)))
      in fp_mul J R c)"

text \<open>The table of district coordinates, in the order of the source.\<close>

definition districtCoordinates :: "(string \<times> real \<times> real) list" where
  "districtCoordinates =
    [(''patna'', 25.5941, 85.1376),
     (''gaya'', 24.7955, 85.0002),
     (''muzaffarpur'', 26.1209, 85.3647),
     (''darbhanga'', 26.1542, 85.8918),
     (''bhagalpur'', 25.2425, 86.9842),
     (''saharsa'', 25.8781, 86.5975),
     (''purnia'', 25.7776, 87.4753),
     (''katihar'', 25.5386, 87.5819),
     (''begusarai'', 25.4182, 86.1272),
     (''samastipur'', 25.8538, 85.7800),
     (''chapra'', 25.7805, 84.7477),
     (''sitamarhi'', 26.5947, 85.4897),
     (''madhubani'', 26.3489, 86.0644),
     (''supaul'', 26.1266, 86.6025),
     (''araria'', 26.1477, 87.5081),
     (''kishanganj'', 26.1086, 87.9542),
     (''aurangabad'', 24.7521, 84.3742),
     (''jehanabad'', 25.2078, 84.9869),
     (''nalanda'', 25.1372, 85.4441),
     (''nawada'', 24.8813, 85.5431),
     (''rohtas'', 24.9565, 84.0134),
     (''buxar'', 25.5621, 83.9730),
     (''kaimur'', 25.0408, 83.6122),
     (''gopalganj'', 26.4676, 84.4358),
     (''siwan'', 26.2194, 84.3608),
     (''saran'', 25.9222, 84.7411),
     (''vaishali'', 25.7207, 85.1303),
     (''east_champaran'', 26.6447, 84.9259),
     (''west_champaran'', 27.2307, 84.2595),
     (''sheohar'', 26.5189, 85.2961),
     (''madhepura'', 25.9215, 86.7906),
     (''khagaria'', 25.5017, 86.4751),
     (''munger'', 25.3766, 86.4731),
     (''lakhisarai'', 25.1726, 86.0920),
     (''sheikhpura'', 25.1394, 85.8500),
     (''jamui'', 24.9267, 86.2264),
     (''banka'', 24.8881, 86.9219),
     (''arwal'', 25.2520, 84.6819)]"

text \<open>\<open>toLowerCase\<close> on one code unit below U+0100.\<close>

definition toLowerCase_char :: "char \<Rightarrow> char" where
  "toLowerCase_char c =
     (let n = (of_char c :: nat)
      in if (65 \<le> n \<and> n \<le> 90) \<or> (192 \<le> n \<and> n \<le> 222 \<and> n \<noteq> 215)
         then char_of (n + 32) else c)"

text \<open>\<open>replace(/\s+/g, '_')\<close>: every maximal run of white space becomes one underscore.\<close>

function replace_spaces :: "string \<Rightarrow> string" where
  "replace_spaces [] = []"
| "replace_spaces (c # cs) =
     (if is_space c then CHR ''_'' # replace_spaces (dropWhile is_space cs)
      else c # replace_spaces cs)"
  by pat_completeness auto
termination
  by (relation "measure length") (auto simp: length_dropWhile_le less_Suc_eq_le)

text \<open>
  The lookup \<open>districtCoordinates[normalized] || null\<close> reads a plain object, so the two
  lower-case property names that every object inherits (\<open>constructor\<close>, \<open>__proto__\<close>) are
  found as well; the object found there has no \<open>lat\<close> and no \<open>lng\<close>, and \<open>undefined\<close>
  acts as \<open>NaN\<close> in arithmetic and is falsy, as \<open>NaN\<close> is. The coordinates of the table
  are decimal literals, hence rounded.
\<close>

definition getDistrictCoordinates :: "engine \<Rightarrow> string \<Rightarrow> (jsnum \<times> jsnum) option" where
  "getDistrictCoordinates J district =
     (let normalized = replace_spaces (map toLowerCase_char district)
      in case map_of districtCoordinates normalized of
           Some (lat, lng) \<Rightarrow> Some (rnd J lat, rnd J lng)
         | None \<Rightarrow>
             if normalized = ''constructor'' \<or> normalized = ''__proto__''
             then Some (NaN, NaN) else None)"

section \<open>Match Engine\<close>

text \<open>\<open>parseFloat\<close> of a field that has been tested truthy.\<close>

definition parseField :: "engine \<Rightarrow> string option \<Rightarrow> jsnum" where
  "parseField J s = (case s of None \<Rightarrow> NaN | Some cs \<Rightarrow> parseFloat J cs)"

text \<open>
  The number that \<open>maxDistance\<close> stands for in \<open>x <= currentTeacher.maxDistance!\<close>:
  the non-null assertion has no effect at run time, and \<open>null\<close> converts to \<open>0\<close>.
\<close>

definition maxDistance_num :: "engine \<Rightarrow> TeacherWithUser \<Rightarrow> jsnum" where
  "maxDistance_num J t = (case maxDistance t of None \<Rightarrow> Num 0 | Some n \<Rightarrow> rnd J (of_int n))"

definition checkPerfectMatch :: "TeacherWithUser \<Rightarrow> TeacherWithUser \<Rightarrow> bool" where
  "checkPerfectMatch teacher1 teacher2 =
     (let teacher1WantsTeacher2District =
            (currentDistrict teacher2 \<in> set (preferredDistricts teacher1));
          teacher2WantsTeacher1District =
            (currentDistrict teacher1 \<in> set (preferredDistricts teacher2));
          sameGradeLevel = (gradeLevel teacher1 = gradeLevel teacher2)
      in teacher1WantsTeacher2District \<and> teacher2WantsTeacher1District \<and> sameGradeLevel)"

definition calculateDistance :: "engine \<Rightarrow> TeacherWithUser \<Rightarrow> TeacherWithUser \<Rightarrow> jsnum" where
  "calculateDistance J teacher1 teacher2 =
     (if str_truthy (currentLatitude teacher1) \<and> str_truthy (currentLongitude teacher1) \<and>
         str_truthy (currentLatitude teacher2) \<and> str_truthy (currentLongitude teacher2)
      then haversineDistance J
             (parseField J (currentLatitude teacher1))
             (parseField J (currentLongitude teacher1))
             (parseField J (currentLatitude teacher2))
             (parseField J (currentLongitude teacher2))
      else
        (case (getDistrictCoordinates J (currentDistrict teacher1),
               getDistrictCoordinates J (currentDistrict teacher2)) of
           (Some (lat1, lng1), Some (lat2, lng2)) \<Rightarrow> haversineDistance J lat1 lng1 lat2 lng2
         | _ \<Rightarrow> Num 0))"

definition calculateDistanceToHome :: "engine \<Rightarrow> TeacherWithUser \<Rightarrow> jsnum" where
  "calculateDistanceToHome J t =
     (if str_truthy (currentLatitude t) \<and> str_truthy (currentLongitude t) \<and>
         str_truthy (homeLatitude t) \<and> str_truthy (homeLongitude t)
      then haversineDistance J
             (parseField J (currentLatitude t))
             (parseField J (currentLongitude t))
             (parseField J (homeLatitude t))
             (parseField J (homeLongitude t))
      else
        (case (getDistrictCoordinates J (currentDistrict t),
               getDistrictCoordinates J (homeDistrict t)) of
           (Some (clat, clng), Some (hlat, hlng)) \<Rightarrow> haversineDistance J clat clng hlat hlng
         | _ \<Rightarrow> Num 0))"

text \<open>
  The two \<open>let\<close>-bound pairs of \<open>calculateDistanceFromTeacherToHome\<close>; \<open>None\<close> is the
  pair of variables left \<open>undefined\<close>.
\<close>

definition teacherLatLng :: "engine \<Rightarrow> TeacherWithUser \<Rightarrow> (jsnum \<times> jsnum) option" where
  "teacherLatLng J t =
     (if str_truthy (currentSchoolLatitude t) \<and> str_truthy (currentSchoolLongitude t)
      then Some (parseField J (currentSchoolLatitude t),
                 parseField J (currentSchoolLongitude t))
      else if str_truthy (currentLatitude t) \<and> str_truthy (currentLongitude t)
      then Some (parseField J (currentLatitude t), parseField J (currentLongitude t))
      else getDistrictCoordinates J (currentDistrict t))"

definition homeLatLng :: "engine \<Rightarrow> TeacherWithUser \<Rightarrow> (jsnum \<times> jsnum) option" where
  "homeLatLng J homeTeacher =
     (if str_truthy (homeLatitude homeTeacher) \<and> str_truthy (homeLongitude homeTeacher)
      then Some (parseField J (homeLatitude homeTeacher),
                 parseField J (homeLongitude homeTeacher))
      else if str_truthy (preferredLocationLatitude homeTeacher) \<and>
              str_truthy (preferredLocationLongitude homeTeacher)
      then Some (parseField J (preferredLocationLatitude homeTeacher),
                 parseField J (preferredLocationLongitude homeTeacher))
      else getDistrictCoordinates J (homeDistrict homeTeacher))"

definition calculateDistanceFromTeacherToHome ::
    "engine \<Rightarrow> TeacherWithUser \<Rightarrow> TeacherWithUser \<Rightarrow> jsnum" where
  "calculateDistanceFromTeacherToHome J t homeTeacher =
     (case (teacherLatLng J t, homeLatLng J homeTeacher) of
        (Some (teacherLat, teacherLng), Some (homeLat, homeLng)) \<Rightarrow>
          if js_truthy teacherLat \<and> js_truthy teacherLng \<and>
             js_truthy homeLat \<and> js_truthy homeLng
          then haversineDistance J teacherLat teacherLng homeLat homeLng
          else Num 0
      | _ \<Rightarrow> Num 0)"

text \<open>The score expression of \<open>checkNearbyMatch\<close>.\<close>

definition nearbyScore :: "engine \<Rightarrow> jsnum \<Rightarrow> jsnum" where
  "nearbyScore J d = js_max (Num 0) (fp_sub J (Num 100) (js_floor (fp_div J d (Num 10))))"

definition checkNearbyMatch ::
    "engine \<Rightarrow> TeacherWithUser \<Rightarrow> TeacherWithUser \<Rightarrow> (jsnum \<times> jsnum) option" where
  "checkNearbyMatch J currentTeacher otherTeacher =
     (if gradeLevel currentTeacher \<noteq> gradeLevel otherTeacher then None
      else
        (let currentTeacherCurrentToHome = calculateDistanceToHome J currentTeacher;
             otherTeacherToCurrentHome =
               calculateDistanceFromTeacherToHome J otherTeacher currentTeacher
         in if js_lt otherTeacherToCurrentHome currentTeacherCurrentToHome \<and>
               js_le otherTeacherToCurrentHome (maxDistance_num J currentTeacher)
            then Some (otherTeacherToCurrentHome, nearbyScore J otherTeacherToCurrentHome)
            else None))"

text \<open>The comparison function given to \<open>sort\<close>.\<close>

definition compareMatches :: "engine \<Rightarrow> MatchResult \<Rightarrow> MatchResult \<Rightarrow> jsnum" where
  "compareMatches J a b =
     (if matchType a = perfect \<and> matchType b \<noteq> perfect then Num (- 1)
      else if matchType a \<noteq> perfect \<and> matchType b = perfect then Num 1
      else fp_sub J (distance a) (distance b))"

text \<open>
  \<open>Array.prototype.sort\<close> with a comparison function. The language fixes the result
  when the function is a consistent comparator for the elements: the sorted order, with
  elements that compare equal left in their original order. \<open>stable_sort\<close> computes it by
  insertion: \<open>x\<close>, which stood before every element of \<open>ys\<close>, moves behind exactly the
  leading elements that compare strictly smaller. Otherwise, and so whenever a comparison
  returns \<open>NaN\<close>, the order is the engine's, and only a rearrangement of the array is
  taken from it.
\<close>

fun sort_insert :: "('a \<Rightarrow> 'a \<Rightarrow> jsnum) \<Rightarrow> 'a \<Rightarrow> 'a list \<Rightarrow> 'a list" where
  "sort_insert cmp x [] = [x]"
| "sort_insert cmp x (y # ys) =
     (if js_lt (Num 0) (cmp x y) then y # sort_insert cmp x ys else x # y # ys)"

definition stable_sort :: "('a \<Rightarrow> 'a \<Rightarrow> jsnum) \<Rightarrow> 'a list \<Rightarrow> 'a list" where
  "stable_sort cmp xs = foldr (sort_insert cmp) xs []"

definition consistent_comparator :: "('a \<Rightarrow> 'a \<Rightarrow> jsnum) \<Rightarrow> 'a list \<Rightarrow> bool" where
  "consistent_comparator cmp xs =
     (\<forall>a \<in> set xs. \<forall>b \<in> set xs. \<forall>c \<in> set xs.
        cmp a b \<noteq> NaN \<and>
        cmp a a = Num 0 \<and>
        (cmp a b = Num 0 \<longrightarrow> cmp b a = Num 0) \<and>
        (cmp a b = Num 0 \<and> cmp b c = Num 0 \<longrightarrow> cmp a c = Num 0) \<and>
        (js_lt (cmp a b) (Num 0) \<and> js_lt (cmp b c) (Num 0) \<longrightarrow> js_lt (cmp a c) (Num 0)) \<and>
        (js_lt (Num 0) (cmp a b) \<and> js_lt (Num 0) (cmp b c) \<longrightarrow> js_lt (Num 0) (cmp a c)))"

definition array_sort ::
    "engine \<Rightarrow> (MatchResult \<Rightarrow> MatchResult \<Rightarrow> jsnum) \<Rightarrow> MatchResult list \<Rightarrow> MatchResult list" where
  "array_sort J cmp xs =
     (if consistent_comparator cmp xs then stable_sort cmp xs
      else if mset (sort_impl J cmp xs) = mset xs then sort_impl J cmp xs
      else xs)"

text \<open>The loop of \<open>findMatches\<close>, with the array \<open>matches\<close> as accumulator.\<close>

fun findMatches_loop ::
    "engine \<Rightarrow> TeacherWithUser \<Rightarrow> TeacherWithUser list \<Rightarrow> MatchResult list \<Rightarrow>
     MatchResult list" where
  "findMatches_loop J currentTeacher [] matches = matches"
| "findMatches_loop J currentTeacher (t # ts) matches =
     (if id_field t = id_field currentTeacher \<or> \<not> isActive t
      then findMatches_loop J currentTeacher ts matches
      else if checkPerfectMatch currentTeacher t
      then findMatches_loop J currentTeacher ts
             (matches @ [\<lparr>teacher = t, matchType = perfect,
                          distance = calculateDistance J currentTeacher t,
                          score = Num 100\<rparr>])
      else
        (case checkNearbyMatch J currentTeacher t of
           Some (d, sc) \<Rightarrow>
             findMatches_loop J currentTeacher ts
               (matches @ [\<lparr>teacher = t, matchType = nearby, distance = d, score = sc\<rparr>])
         | None \<Rightarrow> findMatches_loop J currentTeacher ts matches))"

definition findMatches ::
    "engine \<Rightarrow> TeacherWithUser \<Rightarrow> TeacherWithUser list \<Rightarrow> MatchResult list" where
  "findMatches J currentTeacher allTeachers =
     array_sort J (compareMatches J) (findMatches_loop J currentTeacher allTeachers [])"

section \<open>Notions used to state the properties\<close>

text \<open>
  What is used of an engine: \<open>rnd\<close> is rounding to nearest on the doubles (it never gives
  \<open>NaN\<close>, is monotone and odd, leaves a double as it is, is exact on the integers up to
  \<open>2^53\<close> divided by a power of two, and does not round the difference of two distinct
  doubles to \<open>0\<close>); the sine is odd and \<open>0\<close> at \<open>0\<close>; the cosine lies in \<open>[-1, 1]\<close>; the
  square root of a non-negative number is a non-negative number, \<open>0\<close> at \<open>0\<close> and \<open>1\<close> at
  \<open>1\<close>; \<open>Math.atan2\<close> of two non-negative numbers lies in \<open>[0, 2]\<close> and is \<open>0\<close> when its
  first argument is \<open>0\<close> and its second is positive.
\<close>

definition ieee_engine :: "engine \<Rightarrow> bool" where
  "ieee_engine J \<longleftrightarrow>
     (\<forall>x. rnd J x \<noteq> NaN) \<and>
     (\<forall>x y. x \<le> y \<longrightarrow> js_le (rnd J x) (rnd J y)) \<and>
     (\<forall>x. rnd J (- x) = js_neg (rnd J x)) \<and>
     (\<forall>x u. rnd J x = Num u \<longrightarrow> rnd J u = Num u) \<and>
     (\<forall>n k. \<bar>n\<bar> \<le> 2 ^ 53 \<and> k \<le> 1074 \<longrightarrow>
        rnd J (real_of_int n / 2 ^ k) = Num (real_of_int n / 2 ^ k)) \<and>
     (\<forall>u v. rnd J u = Num u \<and> rnd J v = Num v \<and> v < u \<longrightarrow>
        js_lt (Num 0) (rnd J (u - v))) \<and>
     (\<forall>x. sin_impl J (- x) = js_neg (sin_impl J x)) \<and>
     sin_impl J 0 = Num 0 \<and>
     (\<forall>x. \<exists>c. cos_impl J x = Num c \<and> \<bar>c\<bar> \<le> 1) \<and>
     (\<forall>x. 0 \<le> x \<longrightarrow> (\<exists>s. sqrt_impl J x = Num s \<and> 0 \<le> s)) \<and>
     sqrt_impl J 0 = Num 0 \<and>
     sqrt_impl J 1 = Num 1 \<and>
     (\<forall>y x. 0 \<le> y \<and> 0 \<le> x \<longrightarrow>
        (\<exists>t. atan2_impl J (Num y) (Num x) = Num t \<and> 0 \<le> t \<and> t \<le> 2)) \<and>
     (\<forall>x. 0 < x \<longrightarrow> atan2_impl J (Num 0) (Num x) = Num 0)"

text \<open>A finite number that is a double of the engine.\<close>

definition is_double :: "engine \<Rightarrow> real \<Rightarrow> bool" where
  "is_double J u = (rnd J u = Num u)"

text \<open>
  The engine of exact arithmetic: nothing is rounded, and the functions of \<open>Math\<close> are
  the real ones (\<open>atan2\<close> is \<open>Math.atan2\<close> on two reals). It leaves an array with an
  inconsistent comparator as it is. The concrete evaluations below run on it.
\<close>

definition atan2 :: "real \<Rightarrow> real \<Rightarrow> real" where
  "atan2 y x =
     (if 0 < x then arctan (y / x)
      else if x < 0 then (if 0 \<le> y then arctan (y / x) + pi else arctan (y / x) - pi)
      else if 0 < y then pi / 2
      else if y < 0 then - (pi / 2)
      else 0)"

definition exact_engine :: engine where
  "exact_engine =
     \<lparr>rnd = Num,
      sin_impl = (\<lambda>x. Num (sin x)),
      cos_impl = (\<lambda>x. Num (cos x)),
      sqrt_impl = (\<lambda>x. Num (sqrt x)),
      atan2_impl = (\<lambda>y x. case (y, x) of (Num a, Num b) \<Rightarrow> Num (atan2 a b) | _ \<Rightarrow> NaN),
      sort_impl = (\<lambda>cmp xs. xs)\<rparr>"

text \<open>The constant \<open>a\<close> of \<open>haversineDistance\<close> in exact arithmetic.\<close>

definition exact_a :: "real \<Rightarrow> real \<Rightarrow> real \<Rightarrow> real \<Rightarrow> real" where
  "exact_a lat1 lon1 lat2 lon2 =
     sin ((lat2 - lat1) * (pi / 180) / 2) * sin ((lat2 - lat1) * (pi / 180) / 2) +
     cos (lat1 * (pi / 180)) * cos (lat2 * (pi / 180)) *
       sin ((lon2 - lon1) * (pi / 180) / 2) * sin ((lon2 - lon1) * (pi / 180) / 2)"

text \<open>
  The result that one pass of the loop body pushes for one candidate, if any;
  \<open>findMatches_loop_map_filter\<close> below shows that the loop collects exactly these.
\<close>

definition matchFor :: "engine \<Rightarrow> TeacherWithUser \<Rightarrow> TeacherWithUser \<Rightarrow> MatchResult option" where
  "matchFor J currentTeacher t =
     (if id_field t = id_field currentTeacher \<or> \<not> isActive t then None
      else if checkPerfectMatch currentTeacher t
      then Some \<lparr>teacher = t, matchType = perfect,
                  distance = calculateDistance J currentTeacher t, score = Num 100\<rparr>
      else
        (case checkNearbyMatch J currentTeacher t of
           Some (d, sc) \<Rightarrow> Some \<lparr>teacher = t, matchType = nearby, distance = d, score = sc\<rparr>
         | None \<Rightarrow> None))"


text \<open>
  Coordinate resolution as the specification words it: every endpoint has a chain of
  sources, tried in order and independently of the other endpoint, and a leg with an
  unresolved endpoint has distance \<open>0\<close>.
\<close>

definition explicit_coords ::
    "engine \<Rightarrow> string option \<Rightarrow> string option \<Rightarrow> (jsnum \<times> jsnum) option" where
  "explicit_coords J lat lng =
     (if str_truthy lat \<and> str_truthy lng then Some (parseField J lat, parseField J lng)
      else None)"

fun first_resolved :: "'a option list \<Rightarrow> 'a option" where
  "first_resolved [] = None"
| "first_resolved (Some p # ps) = Some p"
| "first_resolved (None # ps) = first_resolved ps"

definition leg_distance ::
    "engine \<Rightarrow> (jsnum \<times> jsnum) option \<Rightarrow> (jsnum \<times> jsnum) option \<Rightarrow> jsnum" where
  "leg_distance J p q =
     (case (p, q) of
        (Some (lat1, lng1), Some (lat2, lng2)) \<Rightarrow> haversineDistance J lat1 lng1 lat2 lng2
      | _ \<Rightarrow> Num 0)"

definition spec_current_location :: "engine \<Rightarrow> TeacherWithUser \<Rightarrow> (jsnum \<times> jsnum) option" where
  "spec_current_location J t =
     first_resolved
       [explicit_coords J (currentLatitude t) (currentLongitude t),
        getDistrictCoordinates J (currentDistrict t)]"

definition spec_home_location :: "engine \<Rightarrow> TeacherWithUser \<Rightarrow> (jsnum \<times> jsnum) option" where
  "spec_home_location J t =
     first_resolved
       [explicit_coords J (homeLatitude t) (homeLongitude t),
        getDistrictCoordinates J (homeDistrict t)]"

definition spec_candidate_location ::
    "engine \<Rightarrow> TeacherWithUser \<Rightarrow> (jsnum \<times> jsnum) option" where
  "spec_candidate_location J t =
     first_resolved
       [explicit_coords J (currentSchoolLatitude t) (currentSchoolLongitude t),
        explicit_coords J (currentLatitude t) (currentLongitude t),
        getDistrictCoordinates J (currentDistrict t)]"

definition spec_subject_home :: "engine \<Rightarrow> TeacherWithUser \<Rightarrow> (jsnum \<times> jsnum) option" where
  "spec_subject_home J t =
     first_resolved
       [explicit_coords J (homeLatitude t) (homeLongitude t),
        explicit_coords J (preferredLocationLatitude t) (preferredLocationLongitude t),
        getDistrictCoordinates J (homeDistrict t)]"

definition coords_truthy :: "(jsnum \<times> jsnum) option \<Rightarrow> bool" where
  "coords_truthy p = (case p of None \<Rightarrow> True | Some (lat, lng) \<Rightarrow> js_truthy lat \<and> js_truthy lng)"

text \<open>Profiles used as concrete inputs.\<close>

definition blank_teacher :: TeacherWithUser where
  "blank_teacher =
     \<lparr>id_field = 0, isActive = True, gradeLevel = ''primary'', currentDistrict = ''x'',
      currentLatitude = None, currentLongitude = None,
      currentSchoolLatitude = None, currentSchoolLongitude = None,
      homeDistrict = ''x'', homeLatitude = None, homeLongitude = None,
      preferredDistricts = [],
      preferredLocationLatitude = None, preferredLocationLongitude = None,
      maxDistance = Some 100\<rparr>"

definition subject_patna :: TeacherWithUser where
  "subject_patna =
     blank_teacher\<lparr>id_field := 1, currentDistrict := ''patna'',
                    preferredDistricts := [''gaya'']\<rparr>"

definition candidate_gaya :: TeacherWithUser where
  "candidate_gaya =
     blank_teacher\<lparr>id_field := 2, currentDistrict := ''gaya'',
                    preferredDistricts := [''patna'']\<rparr>"

definition candidate_Gaya :: TeacherWithUser where
  "candidate_Gaya = candidate_gaya\<lparr>id_field := 3, currentDistrict := ''Gaya''\<rparr>"

definition candidate_inactive :: TeacherWithUser where
  "candidate_inactive = candidate_gaya\<lparr>id_field := 4, isActive := False\<rparr>"

definition subject_far :: TeacherWithUser where
  "subject_far =
     blank_teacher\<lparr>id_field := 5,
                    currentLatitude := Some ''2'', currentLongitude := Some ''1'',
                    homeLatitude := Some ''1'', homeLongitude := Some ''1''\<rparr>"

definition candidate_nowhere :: TeacherWithUser where
  "candidate_nowhere = blank_teacher\<lparr>id_field := 6\<rparr>"






definition teacher_gps :: TeacherWithUser where
  "teacher_gps =
     blank_teacher\<lparr>id_field := 11,
                    currentLatitude := Some ''26'', currentLongitude := Some ''85.1376''\<rparr>"

definition teacher_patna :: TeacherWithUser where
  "teacher_patna = blank_teacher\<lparr>id_field := 12, currentDistrict := ''patna''\<rparr>"

definition candidate_school :: TeacherWithUser where
  "candidate_school =
     blank_teacher\<lparr>id_field := 13,
                    currentSchoolLatitude := Some ''3'', currentSchoolLongitude := Some ''1'',
                    currentLatitude := Some ''2'', currentLongitude := Some ''1''\<rparr>"



text \<open>
  A subject three degrees of latitude from home, with \<open>maxDistance\<close> 300 and 1000, and
  candidates a tenth of a degree, 2.9 degrees and four degrees from that home.
\<close>

definition subject_home3 :: TeacherWithUser where
  "subject_home3 =
     blank_teacher\<lparr>id_field := 20,
                    currentLatitude := Some ''4'', currentLongitude := Some ''1'',
                    homeLatitude := Some ''1'', homeLongitude := Some ''1'',
                    maxDistance := Some 300\<rparr>"

definition subject_home3_wide :: TeacherWithUser where
  "subject_home3_wide = subject_home3\<lparr>maxDistance := Some 1000\<rparr>"

definition candidate_close :: TeacherWithUser where
  "candidate_close =
     blank_teacher\<lparr>id_field := 21,
                    currentLatitude := Some ''1.1'', currentLongitude := Some ''1''\<rparr>"

definition candidate_over_max :: TeacherWithUser where
  "candidate_over_max =
     blank_teacher\<lparr>id_field := 22,
                    currentLatitude := Some ''3.9'', currentLongitude := Some ''1''\<rparr>"

definition candidate_beyond_home :: TeacherWithUser where
  "candidate_beyond_home =
     blank_teacher\<lparr>id_field := 23,
                    currentLatitude := Some ''5'', currentLongitude := Some ''1''\<rparr>"

definition candidate_other_grade :: TeacherWithUser where
  "candidate_other_grade = candidate_close\<lparr>id_field := 24, gradeLevel := ''secondary''\<rparr>"

definition candidate_infinity :: TeacherWithUser where
  "candidate_infinity =
     blank_teacher\<lparr>id_field := 25,
                    currentSchoolLatitude := Some ''Infinity'',
                    currentSchoolLongitude := Some ''1''\<rparr>"

section \<open>Properties of an engine\<close>

lemma ieee_rnd_not_NaN: "ieee_engine J \<Longrightarrow> rnd J x \<noteq> NaN"
  by (simp add: ieee_engine_def)

lemma ieee_rnd_mono: "ieee_engine J \<Longrightarrow> x \<le> y \<Longrightarrow> js_le (rnd J x) (rnd J y)"
  by (simp add: ieee_engine_def)

lemma ieee_rnd_minus: "ieee_engine J \<Longrightarrow> rnd J (- x) = js_neg (rnd J x)"
  by (simp add: ieee_engine_def)

lemma ieee_rnd_idem: "ieee_engine J \<Longrightarrow> rnd J x = Num u \<Longrightarrow> rnd J u = Num u"
  unfolding ieee_engine_def by blast

lemma ieee_rnd_dyadic:
  "ieee_engine J \<Longrightarrow> \<bar>n\<bar> \<le> 2 ^ 53 \<Longrightarrow> k \<le> 1074 \<Longrightarrow>
   rnd J (real_of_int n / 2 ^ k) = Num (real_of_int n / 2 ^ k)"
  unfolding ieee_engine_def by blast

lemma ieee_rnd_int:
  assumes "ieee_engine J" "\<bar>n\<bar> \<le> 2 ^ 53"
  shows "rnd J (real_of_int n) = Num (real_of_int n)"
  using ieee_rnd_dyadic [OF assms, of 0] by simp

lemma ieee_rnd_diff:
  "ieee_engine J \<Longrightarrow> rnd J u = Num u \<Longrightarrow> rnd J v = Num v \<Longrightarrow> v < u \<Longrightarrow>
   js_lt (Num 0) (rnd J (u - v))"
  unfolding ieee_engine_def by blast

lemma ieee_sin_minus: "ieee_engine J \<Longrightarrow> sin_impl J (- x) = js_neg (sin_impl J x)"
  by (simp add: ieee_engine_def)

lemma ieee_sin_zero: "ieee_engine J \<Longrightarrow> sin_impl J 0 = Num 0"
  by (simp add: ieee_engine_def)

lemma ieee_cos: "ieee_engine J \<Longrightarrow> \<exists>c. cos_impl J x = Num c \<and> \<bar>c\<bar> \<le> 1"
  by (simp add: ieee_engine_def)

lemma ieee_sqrt: "ieee_engine J \<Longrightarrow> 0 \<le> x \<Longrightarrow> \<exists>s. sqrt_impl J x = Num s \<and> 0 \<le> s"
  by (simp add: ieee_engine_def)

lemma ieee_sqrt_zero: "ieee_engine J \<Longrightarrow> sqrt_impl J 0 = Num 0"
  by (simp add: ieee_engine_def)

lemma ieee_sqrt_one: "ieee_engine J \<Longrightarrow> sqrt_impl J 1 = Num 1"
  by (simp add: ieee_engine_def)

lemma ieee_atan2:
  "ieee_engine J \<Longrightarrow> 0 \<le> y \<Longrightarrow> 0 \<le> x \<Longrightarrow>
   \<exists>t. atan2_impl J (Num y) (Num x) = Num t \<and> 0 \<le> t \<and> t \<le> 2"
  unfolding ieee_engine_def by blast

lemma ieee_atan2_zero: "ieee_engine J \<Longrightarrow> 0 < x \<Longrightarrow> atan2_impl J (Num 0) (Num x) = Num 0"
  by (simp add: ieee_engine_def)

lemma rnd_0: "ieee_engine J \<Longrightarrow> rnd J 0 = Num 0"
  using ieee_rnd_int [of J 0] by simp

lemma rnd_1: "ieee_engine J \<Longrightarrow> rnd J 1 = Num 1"
  using ieee_rnd_int [of J 1] by simp

lemma rnd_numeral:
  assumes "ieee_engine J" "(numeral w :: int) \<le> 2 ^ 53"
  shows "rnd J (numeral w) = Num (numeral w)"
  using ieee_rnd_int [OF assms(1), of "numeral w"] assms(2) by simp

text \<open>A real between two integers of moderate size rounds to a number between them.\<close>

lemma rnd_between:
  assumes J: "ieee_engine J" and lo: "real_of_int l \<le> x" and hi: "x \<le> real_of_int h"
    and l: "\<bar>l\<bar> \<le> 2 ^ 53" and h: "\<bar>h\<bar> \<le> 2 ^ 53"
  shows "\<exists>u. rnd J x = Num u \<and> real_of_int l \<le> u \<and> u \<le> real_of_int h \<and> rnd J u = Num u"
proof -
  have a: "js_le (Num (real_of_int l)) (rnd J x)"
    using ieee_rnd_mono [OF J lo] ieee_rnd_int [OF J l] by simp
  have b: "js_le (rnd J x) (Num (real_of_int h))"
    using ieee_rnd_mono [OF J hi] ieee_rnd_int [OF J h] by simp
  show ?thesis
  proof (cases "rnd J x")
    case NaN
    then show ?thesis using ieee_rnd_not_NaN [OF J, of x] by simp
  next
    case (Num u)
    then show ?thesis using a b ieee_rnd_idem [OF J Num] by simp
  next
    case (Infinity s)
    then show ?thesis using a b by (cases s) simp_all
  qed
qed

lemma arctan_le_2: "arctan z \<le> 2"
  using arctan_ubound [of z] pi_half_less_two by linarith

lemma atan2_nonneg: "0 \<le> y \<Longrightarrow> 0 \<le> x \<Longrightarrow> 0 \<le> atan2 y x"
  by (auto simp: atan2_def)

lemma atan2_pos: "0 < y \<Longrightarrow> 0 \<le> x \<Longrightarrow> 0 < atan2 y x"
  by (auto simp: atan2_def)

lemma atan2_le_2: "0 \<le> y \<Longrightarrow> 0 \<le> x \<Longrightarrow> atan2 y x \<le> 2"
  using arctan_le_2 pi_half_less_two by (auto simp: atan2_def)

lemma ieee_engine_exact: "ieee_engine exact_engine"
  unfolding ieee_engine_def exact_engine_def
  by (simp add: atan2_nonneg atan2_le_2 abs_le_iff) (simp add: atan2_def)

section \<open>Properties of the Distance Calculator\<close>

lemma js_neg_neg [simp]: "js_neg (js_neg x) = x"
  by (cases x) simp_all

lemma fp_sub_swap:
  assumes "ieee_engine J"
  shows "fp_sub J x y = js_neg (fp_sub J y x)"
proof (cases x)
  case (Num a)
  show ?thesis
  proof (cases y)
    case (Num b)
    have "rnd J (a - b) = js_neg (rnd J (b - a))"
      using ieee_rnd_minus [OF assms, of "b - a"] by simp
    then show ?thesis by (simp add: \<open>x = Num a\<close> Num)
  qed (simp_all add: Num)
next
  case NaN
  then show ?thesis by (cases y) simp_all
next
  case (Infinity s)
  then show ?thesis by (cases y) auto
qed

lemma fp_mul_commute: "fp_mul J x y = fp_mul J y x"
  by (cases x; cases y) (auto simp: mult.commute)

lemma fp_mul_neg_left:
  assumes "ieee_engine J"
  shows "fp_mul J (js_neg x) y = js_neg (fp_mul J x y)"
proof (cases x)
  case (Num a)
  show ?thesis
  proof (cases y)
    case (Num b)
    have "rnd J (- a * b) = js_neg (rnd J (a * b))"
      using ieee_rnd_minus [OF assms, of "a * b"] by simp
    then show ?thesis by (simp add: \<open>x = Num a\<close> Num)
  next
    case (Infinity s)
    then show ?thesis by (auto simp: Num)
  qed (simp_all add: Num)
next
  case NaN
  then show ?thesis by (cases y) simp_all
next
  case (Infinity s)
  then show ?thesis by (cases y) auto
qed

lemma fp_mul_neg_right:
  "ieee_engine J \<Longrightarrow> fp_mul J x (js_neg y) = js_neg (fp_mul J x y)"
  using fp_mul_neg_left [of J y x] by (simp add: fp_mul_commute [of J x])

lemma fp_mul_neg_neg:
  "ieee_engine J \<Longrightarrow> fp_mul J (js_neg x) (js_neg y) = fp_mul J x y"
  by (simp add: fp_mul_neg_left fp_mul_neg_right)

lemma fp_div_neg_left:
  assumes "ieee_engine J" "b \<noteq> 0"
  shows "fp_div J (js_neg x) (Num b) = js_neg (fp_div J x (Num b))"
proof (cases x)
  case (Num a)
  have "rnd J (- a / b) = js_neg (rnd J (a / b))"
    using ieee_rnd_minus [OF assms(1), of "a / b"] by simp
  then show ?thesis using assms(2) by (simp add: Num)
qed (use assms(2) in auto)

lemma Math_sin_neg: "ieee_engine J \<Longrightarrow> Math_sin J (js_neg x) = js_neg (Math_sin J x)"
  by (cases x) (simp_all add: ieee_sin_minus)

lemma toRadians_neg: "ieee_engine J \<Longrightarrow> toRadians J (js_neg x) = js_neg (toRadians J x)"
  by (simp add: toRadians_def fp_mul_neg_left)

lemma half_angle_sin_swap:
  assumes "ieee_engine J"
  shows "Math_sin J (fp_div J (toRadians J (fp_sub J x y)) (Num 2)) =
         js_neg (Math_sin J (fp_div J (toRadians J (fp_sub J y x)) (Num 2)))"
proof -
  have "fp_sub J x y = js_neg (fp_sub J y x)" by (rule fp_sub_swap [OF assms])
  then show ?thesis
    by (simp add: toRadians_neg [OF assms] fp_div_neg_left [OF assms] Math_sin_neg [OF assms])
qed

lemma haversine_a_sym:
  assumes "ieee_engine J"
  shows "haversine_a J lat1 lon1 lat2 lon2 = haversine_a J lat2 lon2 lat1 lon1"
  unfolding haversine_a_def Let_def
    half_angle_sin_swap [OF assms, of lat2 lat1] half_angle_sin_swap [OF assms, of lon2 lon1]
  by (simp add: fp_mul_neg_neg [OF assms] fp_mul_neg_right [OF assms]
                fp_mul_neg_left [OF assms]
                fp_mul_commute [of J "Math_cos J (toRadians J lat1)"])

lemma haversineDistance_sym:
  "ieee_engine J \<Longrightarrow>
   haversineDistance J lat1 lon1 lat2 lon2 = haversineDistance J lat2 lon2 lat1 lon1"
  by (simp add: haversineDistance_def haversine_a_sym [of J lat1 lon1 lat2 lon2])

lemma sqrt_pair_shape:
  assumes J: "ieee_engine J"
  shows "Math_sqrt J a = NaN \<or> Math_sqrt J (fp_sub J (Num 1) a) = NaN \<or>
         (\<exists>s t. Math_sqrt J a = Num s \<and> Math_sqrt J (fp_sub J (Num 1) a) = Num t \<and>
                0 \<le> s \<and> 0 \<le> t)"
proof (cases a)
  case NaN
  then show ?thesis by simp
next
  case (Infinity b)
  then show ?thesis by (cases b) simp_all
next
  case (Num v)
  show ?thesis
  proof (cases "v < 0")
    case True
    then show ?thesis by (simp add: Num)
  next
    case False
    then obtain s where s: "sqrt_impl J v = Num s" "0 \<le> s"
      using ieee_sqrt [OF J, of v] by auto
    have le1: "js_le (rnd J (1 - v)) (Num 1)"
      using ieee_rnd_mono [OF J, of "1 - v" 1] rnd_1 [OF J] False by simp
    show ?thesis
    proof (cases "rnd J (1 - v)")
      case NaN
      then show ?thesis using ieee_rnd_not_NaN [OF J, of "1 - v"] by simp
    next
      case (Infinity b)
      then show ?thesis using le1 by (cases b) (simp_all add: \<open>a = Num v\<close>)
    next
      case w: (Num w)
      show ?thesis
      proof (cases "w < 0")
        case True
        then show ?thesis by (simp add: \<open>a = Num v\<close> w)
      next
        case wpos: False
        then obtain t where t: "sqrt_impl J w = Num t" "0 \<le> t"
          using ieee_sqrt [OF J, of w] by auto
        show ?thesis
          using s t False wpos by (simp add: \<open>a = Num v\<close> w)
      qed
    qed
  qed
qed

lemma haversineDistance_shape:
  assumes J: "ieee_engine J"
  shows "haversineDistance J lat1 lon1 lat2 lon2 = NaN \<or>
         (\<exists>u. haversineDistance J lat1 lon1 lat2 lon2 = Num u \<and> 0 \<le> u \<and> u \<le> 25484 \<and>
              is_double J u)"
proof -
  define a where "a = haversine_a J lat1 lon1 lat2 lon2"
  have hd: "haversineDistance J lat1 lon1 lat2 lon2 =
        fp_mul J (Num 6371)
          (fp_mul J (Num 2)
             (Math_atan2 J (Math_sqrt J a) (Math_sqrt J (fp_sub J (Num 1) a))))"
    by (simp add: haversineDistance_def a_def Let_def)
  from sqrt_pair_shape [OF J, of a]
  consider "Math_sqrt J a = NaN \<or> Math_sqrt J (fp_sub J (Num 1) a) = NaN"
    | s t where "Math_sqrt J a = Num s" "Math_sqrt J (fp_sub J (Num 1) a) = Num t"
        "0 \<le> s" "0 \<le> t"
    by blast
  then show ?thesis
  proof cases
    case 1
    then have "Math_atan2 J (Math_sqrt J a) (Math_sqrt J (fp_sub J (Num 1) a)) = NaN"
      by (auto simp: Math_atan2_def)
    then show ?thesis by (simp add: hd)
  next
    case 2
    obtain r where r: "atan2_impl J (Num s) (Num t) = Num r" "0 \<le> r" "r \<le> 2"
      using ieee_atan2 [OF J 2(3) 2(4)] by auto
    have at: "Math_atan2 J (Math_sqrt J a) (Math_sqrt J (fp_sub J (Num 1) a)) = Num r"
      by (simp add: Math_atan2_def 2 r)
    obtain q where q: "rnd J (2 * r) = Num q" "0 \<le> q" "q \<le> 4"
      using rnd_between [OF J, of 0 "2 * r" 4] r by auto
    have "real_of_int 0 \<le> 6371 * q" "6371 * q \<le> real_of_int 25484"
      using q by simp_all
    from rnd_between [OF J this]
    obtain u where u: "rnd J (6371 * q) = Num u" "0 \<le> u" "u \<le> 25484" "rnd J u = Num u"
      by auto
    have "haversineDistance J lat1 lon1 lat2 lon2 = Num u"
      by (simp add: hd at q u)
    then show ?thesis using u by (auto simp: is_double_def)
  qed
qed

lemma toRadians_finite:
  assumes J: "ieee_engine J" and x: "is_double J x"
  shows "\<exists>r. toRadians J (Num x) = Num r"
proof -
  have "real_of_int 0 \<le> pi" "pi \<le> real_of_int 4"
    using pi_less_4 by simp_all
  from rnd_between [OF J this]
  obtain p where p: "rnd J pi = Num p" "0 \<le> p" "p \<le> 4" by auto
  have "real_of_int 0 \<le> p / 180" "p / 180 \<le> real_of_int 1"
    using p by simp_all
  from rnd_between [OF J this]
  obtain k where k: "rnd J (p / 180) = Num k" "0 \<le> k" "k \<le> 1" by auto
  have tr: "toRadians J (Num x) = rnd J (x * k)"
    by (simp add: toRadians_def Math_PI_def p k)
  have xd: "rnd J x = Num x" using x by (simp add: is_double_def)
  have nx: "rnd J (- \<bar>x\<bar>) = Num (- \<bar>x\<bar>)" "rnd J \<bar>x\<bar> = Num \<bar>x\<bar>"
    using xd ieee_rnd_minus [OF J, of x] by (cases "0 \<le> x"; simp)+
  have "\<bar>x * k\<bar> \<le> \<bar>x\<bar>"
    using k by (simp add: abs_mult mult_left_le)
  then have b: "- \<bar>x\<bar> \<le> x * k" "x * k \<le> \<bar>x\<bar>" by linarith+
  have lo: "js_le (Num (- \<bar>x\<bar>)) (rnd J (x * k))"
    using ieee_rnd_mono [OF J b(1)] nx by simp
  have hi: "js_le (rnd J (x * k)) (Num \<bar>x\<bar>)"
    using ieee_rnd_mono [OF J b(2)] nx by simp
  show ?thesis
  proof (cases "rnd J (x * k)")
    case NaN
    then show ?thesis using ieee_rnd_not_NaN [OF J, of "x * k"] by simp
  next
    case (Num r)
    then show ?thesis by (simp add: tr)
  next
    case (Infinity s)
    then show ?thesis using lo hi by (cases s) simp_all
  qed
qed

lemma toRadians_zero: "ieee_engine J \<Longrightarrow> toRadians J (Num 0) = Num 0"
proof -
  assume J: "ieee_engine J"
  have "real_of_int 0 \<le> pi" "pi \<le> real_of_int 4"
    using pi_less_4 by simp_all
  from rnd_between [OF J this]
  obtain p where p: "rnd J pi = Num p" "0 \<le> p" "p \<le> 4" by auto
  have "real_of_int 0 \<le> p / 180" "p / 180 \<le> real_of_int 1"
    using p by simp_all
  from rnd_between [OF J this]
  obtain k where k: "rnd J (p / 180) = Num k" by auto
  show ?thesis
    by (simp add: toRadians_def Math_PI_def p k rnd_0 [OF J])
qed

lemma Math_cos_unit:
  assumes J: "ieee_engine J" and x: "is_double J x"
  shows "\<exists>c. Math_cos J (toRadians J (Num x)) = Num c \<and> \<bar>c\<bar> \<le> 1"
proof -
  obtain r where r: "toRadians J (Num x) = Num r"
    using toRadians_finite [OF J x] by auto
  show ?thesis using ieee_cos [OF J, of r] by (simp add: r)
qed

lemma haversine_a_same:
  assumes J: "ieee_engine J" and x: "is_double J x"
  shows "haversine_a J (Num x) (Num y) (Num x) (Num y) = Num 0"
proof -
  have z: "rnd J 0 = Num 0" by (rule rnd_0 [OF J])
  have d: "toRadians J (fp_sub J (Num x) (Num x)) = Num 0"
          "toRadians J (fp_sub J (Num y) (Num y)) = Num 0"
    by (simp_all add: z toRadians_zero [OF J])
  have s: "Math_sin J (fp_div J (Num 0) (Num 2)) = Num 0"
    by (simp add: z ieee_sin_zero [OF J])
  obtain c where c: "Math_cos J (toRadians J (Num x)) = Num c" "\<bar>c\<bar> \<le> 1"
    using Math_cos_unit [OF J x] by auto
  have "real_of_int 0 \<le> c * c" "c * c \<le> real_of_int 1"
    using c(2) by (simp_all add: abs_le_square_iff [of c 1, simplified] power2_eq_square)
  from rnd_between [OF J this]
  obtain k where k: "rnd J (c * c) = Num k" by auto
  show ?thesis
    by (simp add: haversine_a_def Let_def d s c k z del: fp_sub.simps fp_div.simps)
qed

lemma haversineDistance_same:
  assumes J: "ieee_engine J" and x: "is_double J x"
  shows "haversineDistance J (Num x) (Num y) (Num x) (Num y) = Num 0"
proof -
  have z: "rnd J 0 = Num 0" by (rule rnd_0 [OF J])
  have o: "rnd J 1 = Num 1" by (rule rnd_1 [OF J])
  show ?thesis
    by (simp add: haversineDistance_def Let_def haversine_a_same [OF J x] z o
        ieee_sqrt_zero [OF J] ieee_sqrt_one [OF J] Math_atan2_def
        ieee_atan2_zero [OF J])
qed

lemma fp_NaN [simp]:
  "fp_add J x NaN = NaN" "fp_sub J x NaN = NaN" "fp_mul J x NaN = NaN" "fp_div J x NaN = NaN"
  by (cases x; simp)+

lemma not_Num_cases: "(\<forall>v. x \<noteq> Num v) \<longleftrightarrow> x = NaN \<or> (\<exists>s. x = Infinity s)"
  by (cases x) simp_all

lemma fp_sub_not_Num:
  assumes "(\<forall>v. a \<noteq> Num v) \<or> (\<forall>v. b \<noteq> Num v)"
  shows "\<forall>v. fp_sub J a b \<noteq> Num v"
  using assms by (cases a; cases b) auto

lemma toRadians_not_Num:
  assumes "\<forall>v. x \<noteq> Num v"
  shows "\<forall>v. toRadians J x \<noteq> Num v"
  using assms unfolding toRadians_def
  by (cases x; cases "fp_div J (Math_PI J) (Num 180)") auto

lemma half_not_Num:
  assumes "\<forall>v. x \<noteq> Num v"
  shows "\<forall>v. fp_div J x (Num 2) \<noteq> Num v"
  using assms by (cases x) auto

lemma Math_sin_not_Num: "\<forall>v. x \<noteq> Num v \<Longrightarrow> Math_sin J x = NaN"
  by (cases x) auto

lemma Math_cos_not_Num: "\<forall>v. x \<noteq> Num v \<Longrightarrow> Math_cos J x = NaN"
  by (cases x) auto

lemma half_angle_sin_not_Num:
  assumes "(\<forall>v. a \<noteq> Num v) \<or> (\<forall>v. b \<noteq> Num v)"
  shows "Math_sin J (fp_div J (toRadians J (fp_sub J a b)) (Num 2)) = NaN"
  by (intro Math_sin_not_Num half_not_Num toRadians_not_Num fp_sub_not_Num assms)

lemma haversine_a_not_Num:
  assumes "(\<forall>v. lat1 \<noteq> Num v) \<or> (\<forall>v. lon1 \<noteq> Num v) \<or>
           (\<forall>v. lat2 \<noteq> Num v) \<or> (\<forall>v. lon2 \<noteq> Num v)"
  shows "haversine_a J lat1 lon1 lat2 lon2 = NaN"
proof (cases "(\<forall>v. lat1 \<noteq> Num v) \<or> (\<forall>v. lat2 \<noteq> Num v)")
  case True
  then have "Math_sin J (fp_div J (toRadians J (fp_sub J lat2 lat1)) (Num 2)) = NaN"
    by (intro half_angle_sin_not_Num) blast
  then show ?thesis by (simp add: haversine_a_def)
next
  case False
  with assms have "(\<forall>v. lon2 \<noteq> Num v) \<or> (\<forall>v. lon1 \<noteq> Num v)" by blast
  then have "Math_sin J (fp_div J (toRadians J (fp_sub J lon2 lon1)) (Num 2)) = NaN"
    by (rule half_angle_sin_not_Num)
  then show ?thesis by (simp add: haversine_a_def)
qed

lemma haversineDistance_not_Num:
  assumes "(\<forall>v. lat1 \<noteq> Num v) \<or> (\<forall>v. lon1 \<noteq> Num v) \<or>
           (\<forall>v. lat2 \<noteq> Num v) \<or> (\<forall>v. lon2 \<noteq> Num v)"
  shows "haversineDistance J lat1 lon1 lat2 lon2 = NaN"
  by (simp add: haversineDistance_def haversine_a_not_Num [OF assms] Math_atan2_def)


section \<open>Properties of the Match Engine\<close>

lemma findMatches_loop_map_filter:
  "findMatches_loop J S ts acc = acc @ List.map_filter (matchFor J S) ts"
  by (induction ts arbitrary: acc)
     (auto simp: matchFor_def List.map_filter_simps split: option.splits)


lemma mset_sort_insert: "mset (sort_insert cmp x ys) = add_mset x (mset ys)"
  by (induction ys) auto

lemma mset_stable_sort: "mset (stable_sort cmp xs) = mset xs"
  unfolding stable_sort_def by (induction xs) (auto simp: mset_sort_insert)


lemma mset_array_sort: "mset (array_sort J cmp xs) = mset xs"
  by (simp add: array_sort_def mset_stable_sort)

lemma set_array_sort: "set (array_sort J cmp xs) = set xs"
  using mset_array_sort [of J cmp xs] by (metis set_mset_mset)

lemma array_sort_single: "array_sort J cmp [x] = [x]"
  using mset_array_sort [of J cmp "[x]"] by simp

lemma array_sort_Nil: "array_sort J cmp [] = []"
  using mset_array_sort [of J cmp "[]"] by simp

lemma set_map_filter: "set (List.map_filter f xs) = {y. \<exists>x \<in> set xs. f x = Some y}"
  by (induction xs) (auto simp: List.map_filter_simps split: option.splits)

lemma set_findMatches:
  "set (findMatches J S cs) = {m. \<exists>c \<in> set cs. matchFor J S c = Some m}"
  unfolding findMatches_def set_array_sort findMatches_loop_map_filter
  by (simp add: set_map_filter)

lemma mset_findMatches:
  "mset (findMatches J S cs) = mset (List.map_filter (matchFor J S) cs)"
  unfolding findMatches_def mset_array_sort findMatches_loop_map_filter by simp

lemma findMatches_map_filter:
  "findMatches J S cs = array_sort J (compareMatches J) (List.map_filter (matchFor J S) cs)"
  by (simp add: findMatches_def findMatches_loop_map_filter)

lemma matchFor_teacher: "matchFor J S c = Some m \<Longrightarrow> teacher m = c"
  by (auto simp: matchFor_def split: if_splits option.splits)

lemma matchFor_considered:
  "matchFor J S c = Some m \<Longrightarrow> id_field c \<noteq> id_field S \<and> isActive c"
  by (auto simp: matchFor_def split: if_splits option.splits)

lemma matchFor_perfect_iff:
  "matchFor J S c = Some m \<Longrightarrow> (matchType m = perfect) = checkPerfectMatch S c"
  by (auto simp: matchFor_def split: if_splits option.splits)

lemma matchFor_perfect:
  "matchFor J S c = Some m \<Longrightarrow> matchType m = perfect \<Longrightarrow>
   m = \<lparr>teacher = c, matchType = perfect, distance = calculateDistance J S c,
        score = Num 100\<rparr>"
  by (auto simp: matchFor_def split: if_splits option.splits)

lemma matchFor_nearby:
  "matchFor J S c = Some m \<Longrightarrow> matchType m = nearby \<Longrightarrow>
   \<not> checkPerfectMatch S c \<and>
   checkNearbyMatch J S c = Some (distance m, score m) \<and>
   m = \<lparr>teacher = c, matchType = nearby, distance = distance m, score = score m\<rparr>"
  by (auto simp: matchFor_def split: if_splits option.splits)

lemma checkNearbyMatch_Some_iff:
  "checkNearbyMatch J S c = Some (d, sc) \<longleftrightarrow>
     gradeLevel S = gradeLevel c \<and>
     d = calculateDistanceFromTeacherToHome J c S \<and>
     sc = nearbyScore J d \<and>
     js_lt d (calculateDistanceToHome J S) \<and>
     js_le d (maxDistance_num J S)"
  by (auto simp: checkNearbyMatch_def Let_def)


lemma mset_map_filter_teacher:
  "mset (map teacher (List.map_filter (matchFor J S) cs)) \<subseteq># mset cs"
proof (induction cs)
  case Nil
  then show ?case by (simp add: List.map_filter_simps)
next
  case (Cons c cs)
  show ?case
  proof (cases "matchFor J S c")
    case None
    have "mset cs \<subseteq># mset (c # cs)" by (simp add: subseteq_mset_def)
    with Cons.IH
    have "mset (map teacher (List.map_filter (matchFor J S) cs)) \<subseteq># mset (c # cs)"
      by (rule subset_mset.order_trans)
    then show ?thesis using None
      by (simp add: List.map_filter_simps)
  next
    case (Some m)
    then show ?thesis using Cons.IH matchFor_teacher [OF Some]
      by (simp add: List.map_filter_simps mset_subset_eq_add_mset_cancel)
  qed
qed





lemma rnd_diff_sign:
  assumes J: "ieee_engine J" and u: "is_double J u" and v: "is_double J v"
  shows "js_lt (Num 0) (rnd J (u - v)) \<longleftrightarrow> v < u"
    and "js_lt (rnd J (u - v)) (Num 0) \<longleftrightarrow> u < v"
    and "rnd J (u - v) = Num 0 \<longleftrightarrow> u = v"
    and "rnd J (u - v) \<noteq> NaN"
proof -
  have asym: "\<And>r. js_lt (Num 0) r \<Longrightarrow> \<not> js_lt r (Num 0) \<and> r \<noteq> Num 0"
  proof -
    fix r assume "js_lt (Num 0) r"
    then show "\<not> js_lt r (Num 0) \<and> r \<noteq> Num 0" by (cases r) auto
  qed
  have negl: "\<And>r. js_lt (Num 0) r \<Longrightarrow> js_lt (js_neg r) (Num 0)"
  proof -
    fix r assume "js_lt (Num 0) r"
    then show "js_lt (js_neg r) (Num 0)" by (cases r) auto
  qed
  have pos: "js_lt (Num 0) (rnd J (u - v))" if "v < u"
    using ieee_rnd_diff [OF J, of u v] u v that by (simp add: is_double_def)
  have neg: "js_lt (Num 0) (rnd J (v - u)) \<and> rnd J (u - v) = js_neg (rnd J (v - u))" if "u < v"
    using ieee_rnd_diff [OF J, of v u] u v that ieee_rnd_minus [OF J, of "v - u"]
    by (simp add: is_double_def)
  have eq: "rnd J (u - v) = Num 0" if "u = v"
    using that rnd_0 [OF J] by simp
  consider "v < u" | "u < v" | "u = v" by linarith
  then have "(js_lt (Num 0) (rnd J (u - v)) \<longleftrightarrow> v < u) \<and>
             (js_lt (rnd J (u - v)) (Num 0) \<longleftrightarrow> u < v) \<and>
             (rnd J (u - v) = Num 0 \<longleftrightarrow> u = v)"
  proof cases
    case 1
    then show ?thesis using pos [OF 1] asym [of "rnd J (u - v)"] by auto
  next
    case 2
    from neg [OF 2] have p: "js_lt (Num 0) (rnd J (v - u))"
      and e: "rnd J (u - v) = js_neg (rnd J (v - u))" by simp_all
    have "js_lt (rnd J (u - v)) (Num 0)" unfolding e by (rule negl [OF p])
    moreover have "\<not> js_lt (Num 0) (rnd J (u - v))" "rnd J (u - v) \<noteq> Num 0"
      using p unfolding e by (cases "rnd J (v - u)"; auto)+
    ultimately show ?thesis using 2 by auto
  next
    case 3
    then show ?thesis using eq [OF 3] by simp
  qed
  then show "js_lt (Num 0) (rnd J (u - v)) \<longleftrightarrow> v < u"
    and "js_lt (rnd J (u - v)) (Num 0) \<longleftrightarrow> u < v"
    and "rnd J (u - v) = Num 0 \<longleftrightarrow> u = v" by simp_all
  show "rnd J (u - v) \<noteq> NaN" by (rule ieee_rnd_not_NaN [OF J])
qed

lemma matchType_not_perfect: "(t \<noteq> perfect) = (t = nearby)"
  by (cases t) simp_all

lemma compareMatches_same_type:
  "matchType a = matchType b \<Longrightarrow> distance a = Num u \<Longrightarrow> distance b = Num v \<Longrightarrow>
   compareMatches J a b = rnd J (u - v)"
  by (simp add: compareMatches_def)

lemma compareMatches_perfect_nearby:
  "matchType a = perfect \<Longrightarrow> matchType b = nearby \<Longrightarrow> compareMatches J a b = Num (- 1)"
  by (simp add: compareMatches_def)

lemma compareMatches_nearby_perfect:
  "matchType a = nearby \<Longrightarrow> matchType b = perfect \<Longrightarrow> compareMatches J a b = Num 1"
  by (simp add: compareMatches_def)

lemma compareMatches_sign:
  assumes J: "ieee_engine J"
    and a: "distance a = Num u" "is_double J u"
    and b: "distance b = Num v" "is_double J v"
  shows "js_lt (Num 0) (compareMatches J a b) \<longleftrightarrow>
           (matchType a = nearby \<and> matchType b = perfect) \<or>
           (matchType a = matchType b \<and> v < u)"
    and "js_lt (compareMatches J a b) (Num 0) \<longleftrightarrow>
           (matchType a = perfect \<and> matchType b = nearby) \<or>
           (matchType a = matchType b \<and> u < v)"
    and "compareMatches J a b = Num 0 \<longleftrightarrow> matchType a = matchType b \<and> u = v"
    and "compareMatches J a b \<noteq> NaN"
proof -
  note r = rnd_diff_sign [OF J a(2) b(2)]
  consider "matchType a = matchType b"
    | "matchType a = perfect" "matchType b = nearby"
    | "matchType a = nearby" "matchType b = perfect"
    by (cases "matchType a"; cases "matchType b") simp_all
  then have "(js_lt (Num 0) (compareMatches J a b) \<longleftrightarrow>
           (matchType a = nearby \<and> matchType b = perfect) \<or>
           (matchType a = matchType b \<and> v < u)) \<and>
     (js_lt (compareMatches J a b) (Num 0) \<longleftrightarrow>
           (matchType a = perfect \<and> matchType b = nearby) \<or>
           (matchType a = matchType b \<and> u < v)) \<and>
     (compareMatches J a b = Num 0 \<longleftrightarrow> matchType a = matchType b \<and> u = v) \<and>
     compareMatches J a b \<noteq> NaN"
  proof cases
    case 1
    have c: "compareMatches J a b = rnd J (u - v)"
      by (rule compareMatches_same_type [OF 1 a(1) b(1)])
    have n: "\<not> (matchType a = nearby \<and> matchType b = perfect)"
            "\<not> (matchType a = perfect \<and> matchType b = nearby)"
      using 1 by auto
    show ?thesis unfolding c r using 1 n r(4) by blast
  next
    case 2
    show ?thesis unfolding compareMatches_perfect_nearby [OF 2] using 2 by simp
  next
    case 3
    show ?thesis unfolding compareMatches_nearby_perfect [OF 3] using 3 by simp
  qed
  then show "js_lt (Num 0) (compareMatches J a b) \<longleftrightarrow>
           (matchType a = nearby \<and> matchType b = perfect) \<or>
           (matchType a = matchType b \<and> v < u)"
    and "js_lt (compareMatches J a b) (Num 0) \<longleftrightarrow>
           (matchType a = perfect \<and> matchType b = nearby) \<or>
           (matchType a = matchType b \<and> u < v)"
    and "compareMatches J a b = Num 0 \<longleftrightarrow> matchType a = matchType b \<and> u = v"
    and "compareMatches J a b \<noteq> NaN" by blast+
qed

lemma is_double_0: "ieee_engine J \<Longrightarrow> is_double J 0"
  by (simp add: is_double_def rnd_0)

lemma first_resolved_None_iff: "first_resolved ps = None \<longleftrightarrow> (\<forall>p \<in> set ps. p = None)"
  by (induction ps rule: first_resolved.induct) auto

lemma first_resolved_Cons:
  "first_resolved (p # ps) = (case p of None \<Rightarrow> first_resolved ps | Some q \<Rightarrow> Some q)"
  by (cases p) simp_all

lemma explicit_coords_None_iff:
  "explicit_coords J lat lng = None \<longleftrightarrow> \<not> (str_truthy lat \<and> str_truthy lng)"
  by (simp add: explicit_coords_def)

lemma leg_distance_None [simp]:
  "leg_distance J None q = Num 0" "leg_distance J p None = Num 0"
  by (simp_all add: leg_distance_def split: option.splits prod.splits)

lemma leg_distance_Some [simp]:
  "leg_distance J (Some (a, b)) (Some (c, d)) = haversineDistance J a b c d"
  by (simp add: leg_distance_def)

lemma calculateDistance_as_legs:
  "calculateDistance J t1 t2 =
     (if explicit_coords J (currentLatitude t1) (currentLongitude t1) \<noteq> None \<and>
         explicit_coords J (currentLatitude t2) (currentLongitude t2) \<noteq> None
      then leg_distance J (explicit_coords J (currentLatitude t1) (currentLongitude t1))
                          (explicit_coords J (currentLatitude t2) (currentLongitude t2))
      else leg_distance J (getDistrictCoordinates J (currentDistrict t1))
                          (getDistrictCoordinates J (currentDistrict t2)))"
  by (auto simp: calculateDistance_def explicit_coords_def leg_distance_def
           split: option.splits prod.splits)

lemma calculateDistanceToHome_as_legs:
  "calculateDistanceToHome J t =
     (if explicit_coords J (currentLatitude t) (currentLongitude t) \<noteq> None \<and>
         explicit_coords J (homeLatitude t) (homeLongitude t) \<noteq> None
      then leg_distance J (explicit_coords J (currentLatitude t) (currentLongitude t))
                          (explicit_coords J (homeLatitude t) (homeLongitude t))
      else leg_distance J (getDistrictCoordinates J (currentDistrict t))
                          (getDistrictCoordinates J (homeDistrict t)))"
  by (auto simp: calculateDistanceToHome_def explicit_coords_def leg_distance_def
           split: option.splits prod.splits)

lemma teacherLatLng_spec: "teacherLatLng J t = spec_candidate_location J t"
  by (simp add: teacherLatLng_def spec_candidate_location_def explicit_coords_def
                first_resolved_Cons split: option.splits)

lemma homeLatLng_spec: "homeLatLng J t = spec_subject_home J t"
  by (simp add: homeLatLng_def spec_subject_home_def explicit_coords_def
                first_resolved_Cons split: option.splits)

lemma calculateDistanceFromTeacherToHome_as_leg:
  "calculateDistanceFromTeacherToHome J c h =
     (if coords_truthy (spec_candidate_location J c) \<and> coords_truthy (spec_subject_home J h)
      then leg_distance J (spec_candidate_location J c) (spec_subject_home J h)
      else Num 0)"
  by (auto simp: calculateDistanceFromTeacherToHome_def teacherLatLng_spec homeLatLng_spec
                 coords_truthy_def
           split: option.splits)

lemma calculateDistance_unresolved:
  "spec_current_location J t1 = None \<or> spec_current_location J t2 = None \<Longrightarrow>
   calculateDistance J t1 t2 = Num 0"
  unfolding calculateDistance_as_legs
  by (auto simp: spec_current_location_def first_resolved_None_iff)

lemma calculateDistanceToHome_unresolved:
  "spec_current_location J t = None \<or> spec_home_location J t = None \<Longrightarrow>
   calculateDistanceToHome J t = Num 0"
  unfolding calculateDistanceToHome_as_legs
  by (auto simp: spec_current_location_def spec_home_location_def first_resolved_None_iff)

lemma calculateDistanceFromTeacherToHome_unresolved:
  "spec_candidate_location J c = None \<or> spec_subject_home J h = None \<Longrightarrow>
   calculateDistanceFromTeacherToHome J c h = Num 0"
  by (auto simp: calculateDistanceFromTeacherToHome_def teacherLatLng_spec homeLatLng_spec
           split: option.splits)

lemma leg_distance_shape:
  assumes J: "ieee_engine J"
  shows "leg_distance J p q = NaN \<or>
         (\<exists>u. leg_distance J p q = Num u \<and> 0 \<le> u \<and> u \<le> 25484 \<and> is_double J u)"
proof (cases p)
  case None
  then show ?thesis using is_double_0 [OF J] by simp
next
  case p: (Some a)
  show ?thesis
  proof (cases q)
    case None
    then show ?thesis using is_double_0 [OF J] by simp
  next
    case q: (Some b)
    obtain a1 a2 b1 b2 where ab: "a = (a1, a2)" "b = (b1, b2)"
      by (cases a; cases b) auto
    show ?thesis
      unfolding p q ab leg_distance_Some by (rule haversineDistance_shape [OF J])
  qed
qed


lemma calculateDistanceToHome_shape:
  assumes J: "ieee_engine J"
  shows "calculateDistanceToHome J a = NaN \<or>
         (\<exists>u. calculateDistanceToHome J a = Num u \<and> 0 \<le> u \<and> u \<le> 25484 \<and> is_double J u)"
  unfolding calculateDistanceToHome_as_legs
  using leg_distance_shape [OF J] by (simp split: if_splits)

lemma calculateDistanceFromTeacherToHome_shape:
  assumes J: "ieee_engine J"
  shows "calculateDistanceFromTeacherToHome J c h = NaN \<or>
         (\<exists>u. calculateDistanceFromTeacherToHome J c h = Num u \<and> 0 \<le> u \<and> u \<le> 25484 \<and>
              is_double J u)"
  unfolding calculateDistanceFromTeacherToHome_as_leg
  using leg_distance_shape [OF J] is_double_0 [OF J] by (simp split: if_splits)

lemma nearbyScore_value:
  assumes J: "ieee_engine J" and u: "0 \<le> u" "u \<le> 25484"
  shows "\<exists>w. rnd J (u / 10) = Num w \<and> 0 \<le> w \<and>
             nearbyScore J (Num u) = Num (of_int (max 0 (100 - \<lfloor>w\<rfloor>)))"
proof -
  have "real_of_int 0 \<le> u / 10" "u / 10 \<le> real_of_int 2549"
    using u by simp_all
  from rnd_between [OF J this]
  obtain w where w: "rnd J (u / 10) = Num w" "0 \<le> w" "w \<le> 2549" by auto
  have f: "0 \<le> \<lfloor>w\<rfloor>" "\<lfloor>w\<rfloor> \<le> 2549"
    using w by (simp_all add: floor_le_iff)
  have "\<bar>100 - \<lfloor>w\<rfloor>\<bar> \<le> 2549" using f by linarith
  also have "(2549 :: int) \<le> 2 ^ 53" by simp
  finally have "\<bar>100 - \<lfloor>w\<rfloor>\<bar> \<le> 2 ^ 53" .
  from ieee_rnd_int [OF J this]
  have r: "rnd J (100 - real_of_int \<lfloor>w\<rfloor>) = Num (real_of_int (100 - \<lfloor>w\<rfloor>))"
    by simp
  have "nearbyScore J (Num u) = Num (max 0 (real_of_int (100 - \<lfloor>w\<rfloor>)))"
    by (simp add: nearbyScore_def w r)
  also have "max 0 (real_of_int (100 - \<lfloor>w\<rfloor>)) = real_of_int (max 0 (100 - \<lfloor>w\<rfloor>))"
    by (simp add: max_def)
  finally show ?thesis using w by auto
qed


lemma checkNearbyMatch_SomeD:
  assumes J: "ieee_engine J" and c: "checkNearbyMatch J S c = Some (d, sc)"
  shows "\<exists>u. d = Num u \<and> 0 \<le> u \<and> u \<le> 25484 \<and> is_double J u \<and> sc = nearbyScore J (Num u)"
proof -
  from c have d: "d = calculateDistanceFromTeacherToHome J c S"
    and sc: "sc = nearbyScore J d" and lt: "js_lt d (calculateDistanceToHome J S)"
    by (auto simp: checkNearbyMatch_Some_iff)
  from lt have "d \<noteq> NaN" by auto
  with calculateDistanceFromTeacherToHome_shape [OF J, of c S] d
  show ?thesis using sc by auto
qed

lemma checkNearbyMatch_home_zero:
  assumes J: "ieee_engine J" and z: "calculateDistanceToHome J S = Num 0"
  shows "checkNearbyMatch J S c = None"
proof -
  have "\<not> js_lt (calculateDistanceFromTeacherToHome J c S) (Num 0)"
    using calculateDistanceFromTeacherToHome_shape [OF J, of c S] by auto
  then show ?thesis
    by (simp add: checkNearbyMatch_def z)
qed



lemma checkPerfectMatch_subject_isActive:
  "checkPerfectMatch (S\<lparr>isActive := b\<rparr>) c = checkPerfectMatch S c"
  by (simp add: checkPerfectMatch_def)

lemma calculateDistance_subject_isActive:
  "calculateDistance J (S\<lparr>isActive := b\<rparr>) c = calculateDistance J S c"
  by (simp add: calculateDistance_def)

lemma calculateDistanceToHome_isActive:
  "calculateDistanceToHome J (S\<lparr>isActive := b\<rparr>) = calculateDistanceToHome J S"
  by (simp add: calculateDistanceToHome_def)

lemma homeLatLng_isActive: "homeLatLng J (S\<lparr>isActive := b\<rparr>) = homeLatLng J S"
  by (simp add: homeLatLng_def)

lemma calculateDistanceFromTeacherToHome_isActive:
  "calculateDistanceFromTeacherToHome J c (S\<lparr>isActive := b\<rparr>) =
   calculateDistanceFromTeacherToHome J c S"
  by (simp only: calculateDistanceFromTeacherToHome_def homeLatLng_isActive)

lemma maxDistance_num_isActive:
  "maxDistance_num J (S\<lparr>isActive := b\<rparr>) = maxDistance_num J S"
  by (simp add: maxDistance_num_def)

lemma checkNearbyMatch_subject_isActive:
  "checkNearbyMatch J (S\<lparr>isActive := b\<rparr>) c = checkNearbyMatch J S c"
  unfolding checkNearbyMatch_def calculateDistanceToHome_isActive
    calculateDistanceFromTeacherToHome_isActive maxDistance_num_isActive
  by simp

lemma matchFor_subject_isActive: "matchFor J (S\<lparr>isActive := b\<rparr>) c = matchFor J S c"
  unfolding matchFor_def checkPerfectMatch_subject_isActive
    calculateDistance_subject_isActive checkNearbyMatch_subject_isActive
  by simp

lemma consistent_compareMatches:
  assumes J: "ieee_engine J"
    and d: "\<forall>m \<in> set xs. \<exists>u. distance m = Num u \<and> is_double J u"
  shows "consistent_comparator (compareMatches J) xs"
  unfolding consistent_comparator_def
proof (intro ballI)
  fix a b c assume "a \<in> set xs" "b \<in> set xs" "c \<in> set xs"
  with d obtain u v w where a: "distance a = Num u" "is_double J u"
    and b: "distance b = Num v" "is_double J v"
    and c: "distance c = Num w" "is_double J w" by blast
  note aa = compareMatches_sign [OF J a a]
  note ab = compareMatches_sign [OF J a b]
  note ba = compareMatches_sign [OF J b a]
  note bc = compareMatches_sign [OF J b c]
  note ac = compareMatches_sign [OF J a c]
  have 1: "compareMatches J a b \<noteq> NaN" by (rule ab(4))
  have 2: "compareMatches J a a = Num 0" unfolding aa(3) by simp
  have 3: "compareMatches J a b = Num 0 \<longrightarrow> compareMatches J b a = Num 0"
    unfolding ab(3) ba(3) by simp
  have 4: "compareMatches J a b = Num 0 \<and> compareMatches J b c = Num 0 \<longrightarrow>
           compareMatches J a c = Num 0"
    unfolding ab(3) bc(3) ac(3) by simp
  have 5: "js_lt (compareMatches J a b) (Num 0) \<and> js_lt (compareMatches J b c) (Num 0) \<longrightarrow>
           js_lt (compareMatches J a c) (Num 0)"
    unfolding ab(2) bc(2) ac(2) by auto
  have 6: "js_lt (Num 0) (compareMatches J a b) \<and> js_lt (Num 0) (compareMatches J b c) \<longrightarrow>
           js_lt (Num 0) (compareMatches J a c)"
    unfolding ab(1) bc(1) ac(1) by auto
  show "compareMatches J a b \<noteq> NaN \<and>
        compareMatches J a a = Num 0 \<and>
        (compareMatches J a b = Num 0 \<longrightarrow> compareMatches J b a = Num 0) \<and>
        (compareMatches J a b = Num 0 \<and> compareMatches J b c = Num 0 \<longrightarrow>
           compareMatches J a c = Num 0) \<and>
        (js_lt (compareMatches J a b) (Num 0) \<and> js_lt (compareMatches J b c) (Num 0) \<longrightarrow>
           js_lt (compareMatches J a c) (Num 0)) \<and>
        (js_lt (Num 0) (compareMatches J a b) \<and> js_lt (Num 0) (compareMatches J b c) \<longrightarrow>
           js_lt (Num 0) (compareMatches J a c))"
    using 1 2 3 4 5 6 by blast
qed








lemma checkNearbyMatch_eval:
  assumes "gradeLevel S = gradeLevel c"
    and "calculateDistanceToHome J S = Num h"
    and "calculateDistanceFromTeacherToHome J c S = Num d"
    and "maxDistance_num J S = Num k"
  shows "checkNearbyMatch J S c =
           (if d < h \<and> d \<le> k then Some (Num d, nearbyScore J (Num d)) else None)"
  by (simp add: checkNearbyMatch_def assms Let_def)

lemma checkNearbyMatch_other_grade:
  "gradeLevel S \<noteq> gradeLevel c \<Longrightarrow> checkNearbyMatch J S c = None"
  by (simp add: checkNearbyMatch_def)

lemma stable_sort_two:
  "stable_sort cmp [a, b] = (if js_lt (Num 0) (cmp a b) then [b, a] else [a, b])"
  by (simp add: stable_sort_def)

lemma nearbyScore_values:
  assumes J: "ieee_engine J"
  shows "nearbyScore J (Num 0) = Num 100" "nearbyScore J (Num 95) = Num 91"
    "nearbyScore J (Num 1000) = Num 0"
proof -
  have i: "rnd J 0 = Num 0" "rnd J 100 = Num 100" "rnd J 91 = Num 91"
    using ieee_rnd_int [OF J, of 0] ieee_rnd_int [OF J, of 100] ieee_rnd_int [OF J, of 91]
    by simp_all
  have h: "rnd J (19 / 2) = Num (19 / 2)"
    using ieee_rnd_dyadic [OF J, of 19 1] by simp
  have f: "\<lfloor>(19 :: real) / 2\<rfloor> = 9" by linarith
  show "nearbyScore J (Num 0) = Num 100" by (simp add: nearbyScore_def i)
  show "nearbyScore J (Num 95) = Num 91"
    by (simp add: nearbyScore_def h f i)
  show "nearbyScore J (Num 1000) = Num 0" by (simp add: nearbyScore_def i)
qed


lemma explicit_coords_double:
  assumes J: "ieee_engine J" and e: "explicit_coords J lat lng = Some (Num x, Num y)"
  shows "is_double J x"
proof -
  from e obtain cs where cs: "lat = Some cs" "parseFloat J cs = Num x"
    by (cases lat) (auto simp: explicit_coords_def parseField_def str_truthy_def
                         split: if_splits)
  then obtain v where "rnd J v = Num x"
    by (cases "literal_value cs") (auto simp: parseFloat_def)
  from ieee_rnd_idem [OF J this] show ?thesis by (simp add: is_double_def)
qed

lemma calculateDistanceToHome_same_point:
  assumes J: "ieee_engine J"
    and c: "explicit_coords J (currentLatitude S) (currentLongitude S) = Some (Num x, Num y)"
    and h: "explicit_coords J (homeLatitude S) (homeLongitude S) = Some (Num x, Num y)"
  shows "calculateDistanceToHome J S = Num 0"
  unfolding calculateDistanceToHome_as_legs c h
  using haversineDistance_same [OF J explicit_coords_double [OF J c], of y] by simp

section \<open>The engine of exact arithmetic\<close>

lemma exact_engine_sel [simp]:
  "rnd exact_engine = Num"
  "sin_impl exact_engine = (\<lambda>x. Num (sin x))"
  "cos_impl exact_engine = (\<lambda>x. Num (cos x))"
  "sqrt_impl exact_engine = (\<lambda>x. Num (sqrt x))"
  "atan2_impl exact_engine (Num a) (Num b) = Num (atan2 a b)"
  "sort_impl exact_engine = (\<lambda>cmp xs. xs)"
  by (simp_all add: exact_engine_def)

lemma is_double_exact [simp]: "is_double exact_engine u"
  by (simp add: is_double_def)

lemma haversine_core_bounds:
  fixes x y s :: real
  assumes "0 \<le> s" "s \<le> 1"
  shows "0 \<le> sin ((y - x) / 2) * sin ((y - x) / 2) + cos x * cos y * s"
    and "sin ((y - x) / 2) * sin ((y - x) / 2) + cos x * cos y * s \<le> 1"
proof -
  define C where "C = cos (y - x)"
  define D where "D = cos (x + y)"
  have cc: "cos x * cos y = (C + D) / 2"
    unfolding C_def D_def by (simp add: cos_add cos_diff)
  have dbl: "2 * ((y - x) / 2) = y - x" by simp
  have "cos (y - x) = 1 - 2 * (sin ((y - x) / 2))\<^sup>2"
    using cos_double_sin [of "(y - x) / 2"] unfolding dbl .
  then have ss: "sin ((y - x) / 2) * sin ((y - x) / 2) = (1 - C) / 2"
    unfolding C_def by (simp add: power2_eq_square)
  have eq: "sin ((y - x) / 2) * sin ((y - x) / 2) + cos x * cos y * s
            = ((1 - s) * (1 - C) + s * (1 + D)) / 2"
    unfolding cc ss by (simp add: field_simps)
  have C: "- 1 \<le> C" "C \<le> 1" and D: "- 1 \<le> D" "D \<le> 1"
    unfolding C_def D_def by simp_all
  have p1: "0 \<le> (1 - s) * (1 - C)" using assms C by simp
  have p2: "0 \<le> s * (1 + D)" using assms D by simp
  have q1: "(1 - s) * (1 - C) \<le> (1 - s) * 2"
    using assms C by (intro mult_left_mono) simp_all
  have q2: "s * (1 + D) \<le> s * 2"
    using assms D by (intro mult_left_mono) simp_all
  show "0 \<le> sin ((y - x) / 2) * sin ((y - x) / 2) + cos x * cos y * s"
    unfolding eq using p1 p2 by simp
  show "sin ((y - x) / 2) * sin ((y - x) / 2) + cos x * cos y * s \<le> 1"
    unfolding eq using q1 q2 by simp
qed

lemma exact_a_bounds:
  "0 \<le> exact_a lat1 lon1 lat2 lon2" "exact_a lat1 lon1 lat2 lon2 \<le> 1"
proof -
  define s where "s = (sin ((lon2 - lon1) * (pi / 180) / 2))\<^sup>2"
  have s: "0 \<le> s" "s \<le> 1"
    by (simp_all add: s_def abs_square_le_1)
  have e: "exact_a lat1 lon1 lat2 lon2 =
        sin ((lat2 * (pi / 180) - lat1 * (pi / 180)) / 2) *
        sin ((lat2 * (pi / 180) - lat1 * (pi / 180)) / 2) +
        cos (lat1 * (pi / 180)) * cos (lat2 * (pi / 180)) * s"
  proof -
    have d: "(lat2 - lat1) * (pi / 180) = lat2 * (pi / 180) - lat1 * (pi / 180)"
      by (rule left_diff_distrib)
    show ?thesis
      unfolding exact_a_def s_def d power2_eq_square by (simp only: mult.assoc)
  qed
  show "0 \<le> exact_a lat1 lon1 lat2 lon2"
    unfolding e by (rule haversine_core_bounds(1) [OF s])
  show "exact_a lat1 lon1 lat2 lon2 \<le> 1"
    unfolding e by (rule haversine_core_bounds(2) [OF s])
qed

lemma haversine_a_exact:
  "haversine_a exact_engine (Num a) (Num b) (Num c) (Num d) = Num (exact_a a b c d)"
  by (simp add: haversine_a_def toRadians_def Math_PI_def exact_a_def)

lemma haversineDistance_exact:
  "haversineDistance exact_engine (Num a) (Num b) (Num c) (Num d) =
     Num (6371 * (2 * atan2 (sqrt (exact_a a b c d)) (sqrt (1 - exact_a a b c d))))"
  using exact_a_bounds [of a b c d]
  by (simp add: haversineDistance_def haversine_a_exact Math_atan2_def)

lemma exact_same_lon:
  assumes "lat1 \<le> lat2" "lat2 - lat1 \<le> 180"
  shows "haversineDistance exact_engine (Num lat2) (Num lon) (Num lat1) (Num lon) =
           Num (6371 * ((lat2 - lat1) * pi / 180))"
proof -
  define t where "t = (lat2 - lat1) * pi / 360"
  have t0: "0 \<le> t" using assms(1) by (simp add: t_def)
  have "(lat2 - lat1) * pi \<le> 180 * pi"
    using assms(2) by (intro mult_right_mono) simp_all
  then have t1: "t \<le> pi / 2" by (simp add: t_def)
  have neg: "(lat1 - lat2) * (pi / 180) / 2 = - t"
    by (simp add: t_def field_simps)
  have a: "exact_a lat2 lon lat1 lon = (sin t)\<^sup>2"
    unfolding exact_a_def neg by (simp add: power2_eq_square)
  have s: "0 \<le> sin t" using t0 t1 by (intro sin_ge_zero) (use pi_gt_zero in linarith)+
  have c: "0 \<le> cos t" using t0 t1 by (intro cos_ge_zero) linarith+
  have sq1: "sqrt ((sin t)\<^sup>2) = sin t" using s by simp
  have "1 - (sin t)\<^sup>2 = (cos t)\<^sup>2" by (simp add: cos_squared_eq)
  then have sq2: "sqrt (1 - (sin t)\<^sup>2) = cos t" using c by simp
  have at: "atan2 (sin t) (cos t) = t"
  proof (cases "cos t = 0")
    case True
    have half: "t = pi / 2"
      using True t0 t1 cos_gt_zero_pi [of t] by (cases "t < pi / 2") auto
    have "sin t = 1" unfolding half by simp
    then have "atan2 (sin t) (cos t) = pi / 2"
      unfolding atan2_def True by simp
    then show ?thesis unfolding half [symmetric] .
  next
    case False
    then have pos: "0 < cos t" using c by simp
    then have "t < pi / 2" using t1 by (cases "t = pi / 2") auto
    then have "arctan (tan t) = t" using t0 by (intro arctan_tan) (use pi_gt_zero in linarith)+
    then show ?thesis using pos by (simp add: atan2_def tan_def)
  qed
  show ?thesis
    unfolding haversineDistance_exact a sq1 sq2 at by (simp add: t_def)
qed

lemma exact_same_lon_abs:
  assumes "\<bar>a - b\<bar> \<le> 180"
  shows "haversineDistance exact_engine (Num a) (Num lon) (Num b) (Num lon) =
           Num (6371 * (\<bar>a - b\<bar> * pi / 180))"
proof (cases "b \<le> a")
  case True
  then show ?thesis using exact_same_lon [of b a lon] assms by simp
next
  case False
  then have "haversineDistance exact_engine (Num b) (Num lon) (Num a) (Num lon) =
           Num (6371 * ((b - a) * pi / 180))"
    using exact_same_lon [of a b lon] assms by simp
  moreover have "haversineDistance exact_engine (Num a) (Num lon) (Num b) (Num lon) =
                 haversineDistance exact_engine (Num b) (Num lon) (Num a) (Num lon)"
    by (rule haversineDistance_sym [OF ieee_engine_exact])
  ultimately show ?thesis using False by simp
qed

lemma pi_ge_3: "3 \<le> pi"
proof -
  have "sin (pi / 6) \<le> pi / 6"
    by (rule sin_x_le_x) simp
  then show ?thesis by (simp add: sin_30)
qed

lemma array_sort_exact:
  assumes "\<forall>m \<in> set xs. \<exists>u. distance m = Num u"
  shows "array_sort exact_engine (compareMatches exact_engine) xs =
         stable_sort (compareMatches exact_engine) xs"
proof -
  have "\<forall>m \<in> set xs. \<exists>u. distance m = Num u \<and> is_double exact_engine u"
    using assms by simp
  from consistent_compareMatches [OF ieee_engine_exact this]
  show ?thesis by (simp add: array_sort_def)
qed

lemma array_sort_exact_two:
  "array_sort exact_engine (compareMatches exact_engine)
     [\<lparr>teacher = a, matchType = t, distance = Num u, score = s\<rparr>,
      \<lparr>teacher = b, matchType = t, distance = Num v, score = s'\<rparr>] =
   (if v < u
    then [\<lparr>teacher = b, matchType = t, distance = Num v, score = s'\<rparr>,
          \<lparr>teacher = a, matchType = t, distance = Num u, score = s\<rparr>]
    else [\<lparr>teacher = a, matchType = t, distance = Num u, score = s\<rparr>,
          \<lparr>teacher = b, matchType = t, distance = Num v, score = s'\<rparr>])"
proof -
  have "\<forall>m \<in> set [\<lparr>teacher = a, matchType = t, distance = Num u, score = s\<rparr>,
      \<lparr>teacher = b, matchType = t, distance = Num v, score = s'\<rparr>]. \<exists>w. distance m = Num w"
    by simp
  from array_sort_exact [OF this] show ?thesis
    by (simp add: stable_sort_two compareMatches_def)
qed

section \<open>The functions on the concrete profiles\<close>

lemma district_x: "getDistrictCoordinates J ''x'' = None"
  by (simp add: getDistrictCoordinates_def toLowerCase_char_def is_space_def districtCoordinates_def)

lemma district_patna:
  "getDistrictCoordinates J ''patna'' = Some (rnd J 25.5941, rnd J 85.1376)"
  by (simp add: getDistrictCoordinates_def toLowerCase_char_def is_space_def
                districtCoordinates_def)

lemma district_gaya:
  "getDistrictCoordinates J ''gaya'' = Some (rnd J 24.7955, rnd J 85.0002)"
  by (simp add: getDistrictCoordinates_def toLowerCase_char_def is_space_def
                districtCoordinates_def)

lemma literal_small:
  "literal_value ''1'' = Num 1" "literal_value ''2'' = Num 2" "literal_value ''3'' = Num 3"
  "literal_value ''4'' = Num 4" "literal_value ''5'' = Num 5" "literal_value ''7'' = Num 7"
  by (simp_all add: literal_value_def unsigned_value_def is_space_def is_digit_def
                    starts_with_def digits_val_def exponent_part_def)

lemma literal_more:
  "literal_value ''26'' = Num 26" "literal_value ''85.1376'' = Num 85.1376"
  "literal_value ''1.1'' = Num 1.1" "literal_value ''3.9'' = Num 3.9"
  by (simp_all add: literal_value_def unsigned_value_def is_space_def is_digit_def
                    starts_with_def digits_val_def exponent_part_def)


lemma literal_Infinity: "literal_value ''Infinity'' = Infinity True"
  by (simp add: literal_value_def unsigned_value_def is_space_def is_digit_def starts_with_def)


lemma parse_Infinity: "parseFloat J ''Infinity'' = Infinity True"
  by (simp add: parseFloat_def literal_Infinity)

lemma parse_exact:
  "parseFloat exact_engine ''1'' = Num 1" "parseFloat exact_engine ''2'' = Num 2"
  "parseFloat exact_engine ''3'' = Num 3" "parseFloat exact_engine ''4'' = Num 4"
  "parseFloat exact_engine ''5'' = Num 5" "parseFloat exact_engine ''7'' = Num 7"
  "parseFloat exact_engine ''26'' = Num 26"
  "parseFloat exact_engine ''85.1376'' = Num 85.1376"
  "parseFloat exact_engine ''1.1'' = Num 1.1" "parseFloat exact_engine ''3.9'' = Num 3.9"
  by (simp_all add: parseFloat_def literal_small literal_more)

lemma home_patna: "calculateDistanceToHome J subject_patna = Num 0"
  by (simp add: calculateDistanceToHome_def subject_patna_def blank_teacher_def
                str_truthy_def district_x split: option.splits)

lemma matchFor_patna_gaya:
  "matchFor J subject_patna candidate_gaya =
     Some \<lparr>teacher = candidate_gaya, matchType = perfect,
           distance = calculateDistance J subject_patna candidate_gaya, score = Num 100\<rparr>"
  by (simp add: matchFor_def checkPerfectMatch_def subject_patna_def candidate_gaya_def
                blank_teacher_def)

lemma to_home_patna: "calculateDistanceFromTeacherToHome J c subject_patna = Num 0"
proof -
  have "spec_subject_home J subject_patna = None"
    by (simp add: spec_subject_home_def explicit_coords_def str_truthy_def
                  subject_patna_def blank_teacher_def district_x)
  then show ?thesis by (simp add: calculateDistanceFromTeacherToHome_unresolved)
qed

lemma checkNearbyMatch_patna: "checkNearbyMatch J subject_patna c = None"
  by (simp add: checkNearbyMatch_def home_patna to_home_patna)

lemma matchFor_patna_Gaya: "matchFor J subject_patna candidate_Gaya = None"
  by (simp add: matchFor_def checkNearbyMatch_patna checkPerfectMatch_def)
     (simp add: subject_patna_def candidate_Gaya_def candidate_gaya_def blank_teacher_def)

lemma findMatches_patna_gaya:
  "findMatches J subject_patna [candidate_gaya, candidate_Gaya] =
     [\<lparr>teacher = candidate_gaya, matchType = perfect,
       distance = calculateDistance J subject_patna candidate_gaya, score = Num 100\<rparr>]"
  by (simp add: findMatches_map_filter List.map_filter_simps matchFor_patna_gaya
                matchFor_patna_Gaya array_sort_single)

lemma findMatches_patna_three:
  "findMatches J subject_patna [subject_patna, candidate_inactive, candidate_gaya] =
     [\<lparr>teacher = candidate_gaya, matchType = perfect,
       distance = calculateDistance J subject_patna candidate_gaya, score = Num 100\<rparr>]"
proof -
  have "matchFor J subject_patna subject_patna = None"
    by (simp add: matchFor_def)
  moreover have "matchFor J subject_patna candidate_inactive = None"
    by (simp add: matchFor_def candidate_inactive_def)
  ultimately show ?thesis
    by (simp add: findMatches_map_filter List.map_filter_simps matchFor_patna_gaya
                  array_sort_single)
qed

lemma spec_candidate_school:
  "spec_candidate_location exact_engine candidate_school = Some (Num 3, Num 1)"
  by (simp add: spec_candidate_location_def explicit_coords_def str_truthy_def
                candidate_school_def blank_teacher_def parseField_def parse_exact)

lemma spec_home_far: "spec_subject_home exact_engine subject_far = Some (Num 1, Num 1)"
  by (simp add: spec_subject_home_def explicit_coords_def str_truthy_def
                subject_far_def blank_teacher_def parseField_def parse_exact)

lemma home_home3:
  "calculateDistanceToHome exact_engine subject_home3 = Num (6371 * (3 * pi / 180))"
  "calculateDistanceToHome exact_engine subject_home3_wide = Num (6371 * (3 * pi / 180))"
proof -
  have "haversineDistance exact_engine (Num 4) (Num 1) (Num 1) (Num 1) =
          Num (6371 * (\<bar>4 - 1\<bar> * pi / 180))"
    by (rule exact_same_lon_abs) simp
  then show "calculateDistanceToHome exact_engine subject_home3 = Num (6371 * (3 * pi / 180))"
    "calculateDistanceToHome exact_engine subject_home3_wide = Num (6371 * (3 * pi / 180))"
    by (simp_all add: calculateDistanceToHome_def subject_home3_wide_def subject_home3_def
                      blank_teacher_def str_truthy_def parseField_def parse_exact)
qed

lemma spec_home_home3:
  "spec_subject_home exact_engine subject_home3 = Some (Num 1, Num 1)"
  "spec_subject_home exact_engine subject_home3_wide = Some (Num 1, Num 1)"
  by (simp_all add: spec_subject_home_def explicit_coords_def str_truthy_def
                    subject_home3_wide_def subject_home3_def blank_teacher_def parseField_def
                    parse_exact)

lemma spec_candidates_home3:
  "spec_candidate_location exact_engine candidate_close = Some (Num 1.1, Num 1)"
  "spec_candidate_location exact_engine candidate_over_max = Some (Num 3.9, Num 1)"
  "spec_candidate_location exact_engine candidate_beyond_home = Some (Num 5, Num 1)"
  by (simp_all add: spec_candidate_location_def explicit_coords_def str_truthy_def
                    candidate_close_def candidate_over_max_def candidate_beyond_home_def
                    blank_teacher_def parseField_def parse_exact)

lemma to_home3_close:
  "calculateDistanceFromTeacherToHome exact_engine candidate_close subject_home3 =
     Num (6371 * (0.1 * pi / 180))"
  "calculateDistanceFromTeacherToHome exact_engine candidate_close subject_home3_wide =
     Num (6371 * (0.1 * pi / 180))"
proof -
  have "haversineDistance exact_engine (Num 1.1) (Num 1) (Num 1) (Num 1) =
          Num (6371 * (\<bar>1.1 - 1\<bar> * pi / 180))"
    by (rule exact_same_lon_abs) simp
  then show
    "calculateDistanceFromTeacherToHome exact_engine candidate_close subject_home3 =
       Num (6371 * (0.1 * pi / 180))"
    "calculateDistanceFromTeacherToHome exact_engine candidate_close subject_home3_wide =
       Num (6371 * (0.1 * pi / 180))"
    by (simp_all add: calculateDistanceFromTeacherToHome_as_leg spec_home_home3
                      spec_candidates_home3 coords_truthy_def)
qed

lemma to_home3_over_max:
  "calculateDistanceFromTeacherToHome exact_engine candidate_over_max subject_home3 =
     Num (6371 * (2.9 * pi / 180))"
  "calculateDistanceFromTeacherToHome exact_engine candidate_over_max subject_home3_wide =
     Num (6371 * (2.9 * pi / 180))"
proof -
  have "haversineDistance exact_engine (Num 3.9) (Num 1) (Num 1) (Num 1) =
          Num (6371 * (\<bar>3.9 - 1\<bar> * pi / 180))"
    by (rule exact_same_lon_abs) simp
  then show
    "calculateDistanceFromTeacherToHome exact_engine candidate_over_max subject_home3 =
       Num (6371 * (2.9 * pi / 180))"
    "calculateDistanceFromTeacherToHome exact_engine candidate_over_max subject_home3_wide =
       Num (6371 * (2.9 * pi / 180))"
    by (simp_all add: calculateDistanceFromTeacherToHome_as_leg spec_home_home3
                      spec_candidates_home3 coords_truthy_def)
qed

lemma to_home3_beyond:
  "calculateDistanceFromTeacherToHome exact_engine candidate_beyond_home subject_home3 =
     Num (6371 * (4 * pi / 180))"
  "calculateDistanceFromTeacherToHome exact_engine candidate_beyond_home subject_home3_wide =
     Num (6371 * (4 * pi / 180))"
proof -
  have "haversineDistance exact_engine (Num 5) (Num 1) (Num 1) (Num 1) =
          Num (6371 * (\<bar>5 - 1\<bar> * pi / 180))"
    by (rule exact_same_lon_abs) simp
  then show
    "calculateDistanceFromTeacherToHome exact_engine candidate_beyond_home subject_home3 =
       Num (6371 * (4 * pi / 180))"
    "calculateDistanceFromTeacherToHome exact_engine candidate_beyond_home subject_home3_wide =
       Num (6371 * (4 * pi / 180))"
    by (simp_all add: calculateDistanceFromTeacherToHome_as_leg spec_home_home3
                      spec_candidates_home3 coords_truthy_def)
qed

lemma km_bounds:
  "10 \<le> 6371 * (0.1 * pi / 180)" "6371 * (0.1 * pi / 180) < 20"
  "300 < 6371 * (2.9 * pi / 180)" "6371 * (2.9 * pi / 180) \<le> 1000"
  using pi_ge_3 pi_less_4 by simp_all

lemma score_close: "nearbyScore exact_engine (Num (6371 * (0.1 * pi / 180))) = Num 99"
proof -
  have "\<lfloor>6371 * (0.1 * pi / 180) / 10\<rfloor> = 1"
    using km_bounds(1,2) by (simp add: floor_eq_iff)
  then show ?thesis by (simp add: nearbyScore_def)
qed

lemma not_perfect_home3:
  "\<not> checkPerfectMatch subject_home3 c" "\<not> checkPerfectMatch subject_home3_wide c"
  by (simp_all add: checkPerfectMatch_def subject_home3_wide_def subject_home3_def
                    blank_teacher_def)

lemma maxDistance_home3:
  "maxDistance_num exact_engine subject_home3 = Num 300"
  "maxDistance_num exact_engine subject_home3_wide = Num 1000"
  by (simp_all add: maxDistance_num_def subject_home3_wide_def subject_home3_def
                    blank_teacher_def)

lemma grades_home3:
  "gradeLevel subject_home3 = ''primary''" "gradeLevel subject_home3_wide = ''primary''"
  "gradeLevel candidate_close = ''primary''" "gradeLevel candidate_over_max = ''primary''"
  "gradeLevel candidate_beyond_home = ''primary''"
  "gradeLevel candidate_other_grade = ''secondary''"
  by (simp_all add: subject_home3_wide_def subject_home3_def candidate_close_def
                    candidate_over_max_def candidate_beyond_home_def
                    candidate_other_grade_def blank_teacher_def)

lemma ids_home3:
  "id_field subject_home3 = 20" "id_field subject_home3_wide = 20"
  "id_field candidate_close = 21" "id_field candidate_over_max = 22"
  "id_field candidate_beyond_home = 23" "id_field candidate_other_grade = 24"
  "isActive candidate_close" "isActive candidate_over_max"
  "isActive candidate_beyond_home" "isActive candidate_other_grade"
  by (simp_all add: subject_home3_wide_def subject_home3_def candidate_close_def
                    candidate_over_max_def candidate_beyond_home_def
                    candidate_other_grade_def blank_teacher_def)

lemma nearby_home3:
  "checkNearbyMatch exact_engine subject_home3 candidate_close =
     Some (Num (6371 * (0.1 * pi / 180)), Num 99)"
  "checkNearbyMatch exact_engine subject_home3 candidate_over_max = None"
  "checkNearbyMatch exact_engine subject_home3 candidate_beyond_home = None"
  "checkNearbyMatch exact_engine subject_home3 candidate_other_grade = None"
proof -
  have g: "gradeLevel subject_home3 = gradeLevel candidate_close"
    "gradeLevel subject_home3 = gradeLevel candidate_over_max"
    "gradeLevel subject_home3 = gradeLevel candidate_beyond_home"
    by (simp_all add: grades_home3)
  note e = checkNearbyMatch_eval [OF _ home_home3(1) _ maxDistance_home3(1)]
  show "checkNearbyMatch exact_engine subject_home3 candidate_close =
     Some (Num (6371 * (0.1 * pi / 180)), Num 99)"
    unfolding e [OF g(1) to_home3_close(1)] score_close using km_bounds by simp
  show "checkNearbyMatch exact_engine subject_home3 candidate_over_max = None"
    unfolding e [OF g(2) to_home3_over_max(1)] using km_bounds by simp
  show "checkNearbyMatch exact_engine subject_home3 candidate_beyond_home = None"
    unfolding e [OF g(3) to_home3_beyond(1)] by simp
  show "checkNearbyMatch exact_engine subject_home3 candidate_other_grade = None"
    by (rule checkNearbyMatch_other_grade) (simp add: grades_home3)
qed

lemma nearby_home3_wide:
  "checkNearbyMatch exact_engine subject_home3_wide candidate_close =
     Some (Num (6371 * (0.1 * pi / 180)), Num 99)"
  "checkNearbyMatch exact_engine subject_home3_wide candidate_over_max =
     Some (Num (6371 * (2.9 * pi / 180)),
           nearbyScore exact_engine (Num (6371 * (2.9 * pi / 180))))"
  "checkNearbyMatch exact_engine subject_home3_wide candidate_beyond_home = None"
  "checkNearbyMatch exact_engine subject_home3_wide candidate_other_grade = None"
proof -
  have g: "gradeLevel subject_home3_wide = gradeLevel candidate_close"
    "gradeLevel subject_home3_wide = gradeLevel candidate_over_max"
    "gradeLevel subject_home3_wide = gradeLevel candidate_beyond_home"
    by (simp_all add: grades_home3)
  note e = checkNearbyMatch_eval [OF _ home_home3(2) _ maxDistance_home3(2)]
  have c: "6371 * (0.1 * pi / 180) < 6371 * (3 * pi / 180)"
    "6371 * (0.1 * pi / 180) \<le> (1000 :: real)"
    "6371 * (2.9 * pi / 180) < 6371 * (3 * pi / 180)"
    "6371 * (2.9 * pi / 180) \<le> (1000 :: real)"
    "\<not> 6371 * (4 * pi / 180) < 6371 * (3 * pi / 180)"
    using km_bounds by simp_all
  show "checkNearbyMatch exact_engine subject_home3_wide candidate_close =
     Some (Num (6371 * (0.1 * pi / 180)), Num 99)"
    unfolding e [OF g(1) to_home3_close(2)] score_close by (simp only: c simp_thms if_True)
  show "checkNearbyMatch exact_engine subject_home3_wide candidate_over_max =
     Some (Num (6371 * (2.9 * pi / 180)),
           nearbyScore exact_engine (Num (6371 * (2.9 * pi / 180))))"
    unfolding e [OF g(2) to_home3_over_max(2)] by (simp only: c simp_thms if_True)
  show "checkNearbyMatch exact_engine subject_home3_wide candidate_beyond_home = None"
    unfolding e [OF g(3) to_home3_beyond(2)] by (simp only: c simp_thms if_False)
  show "checkNearbyMatch exact_engine subject_home3_wide candidate_other_grade = None"
    by (rule checkNearbyMatch_other_grade) (simp add: grades_home3)
qed

lemma matchFor_home3:
  "matchFor exact_engine subject_home3 candidate_close =
     Some \<lparr>teacher = candidate_close, matchType = nearby,
           distance = Num (6371 * (0.1 * pi / 180)), score = Num 99\<rparr>"
  "matchFor exact_engine subject_home3 candidate_over_max = None"
  "matchFor exact_engine subject_home3 candidate_beyond_home = None"
  "matchFor exact_engine subject_home3 candidate_other_grade = None"
  unfolding matchFor_def nearby_home3 by (simp_all only: not_perfect_home3 ids_home3, simp_all)

lemma matchFor_home3_wide:
  "matchFor exact_engine subject_home3_wide candidate_close =
     Some \<lparr>teacher = candidate_close, matchType = nearby,
           distance = Num (6371 * (0.1 * pi / 180)), score = Num 99\<rparr>"
  "matchFor exact_engine subject_home3_wide candidate_over_max =
     Some \<lparr>teacher = candidate_over_max, matchType = nearby,
           distance = Num (6371 * (2.9 * pi / 180)),
           score = nearbyScore exact_engine (Num (6371 * (2.9 * pi / 180)))\<rparr>"
  "matchFor exact_engine subject_home3_wide candidate_beyond_home = None"
  "matchFor exact_engine subject_home3_wide candidate_other_grade = None"
  unfolding matchFor_def nearby_home3_wide
  by (simp_all only: not_perfect_home3 ids_home3, simp_all)

lemma findMatches_home3:
  "findMatches exact_engine subject_home3
     [candidate_over_max, candidate_close, candidate_beyond_home, candidate_other_grade] =
   [\<lparr>teacher = candidate_close, matchType = nearby,
     distance = Num (6371 * (0.1 * pi / 180)), score = Num 99\<rparr>]"
  unfolding findMatches_map_filter List.map_filter_simps matchFor_home3
  by (simp only: option.case array_sort_single)

lemma findMatches_home3_wide:
  "findMatches exact_engine subject_home3_wide
     [candidate_over_max, candidate_close, candidate_beyond_home, candidate_other_grade] =
   [\<lparr>teacher = candidate_close, matchType = nearby,
     distance = Num (6371 * (0.1 * pi / 180)), score = Num 99\<rparr>,
    \<lparr>teacher = candidate_over_max, matchType = nearby,
     distance = Num (6371 * (2.9 * pi / 180)),
     score = nearbyScore exact_engine (Num (6371 * (2.9 * pi / 180)))\<rparr>]"
proof -
  have c: "6371 * (0.1 * pi / 180) < 6371 * (2.9 * pi / 180)" by simp
  show ?thesis
    unfolding findMatches_map_filter List.map_filter_simps matchFor_home3_wide
    by (simp only: option.case array_sort_exact_two c if_True)
qed













lemma to_far_infinity:
  "calculateDistanceFromTeacherToHome exact_engine candidate_infinity subject_far = NaN"
proof -
  have c: "spec_candidate_location exact_engine candidate_infinity =
             Some (Infinity True, Num 1)"
    by (simp add: spec_candidate_location_def explicit_coords_def str_truthy_def
                  candidate_infinity_def blank_teacher_def parseField_def parse_exact
                  parse_Infinity)
  have "haversineDistance exact_engine (Infinity True) (Num 1) (Num 1) (Num 1) = NaN"
    by (rule haversineDistance_not_Num) simp
  then show ?thesis
    by (simp add: calculateDistanceFromTeacherToHome_as_leg c spec_home_far coords_truthy_def)
qed

section \<open>The claims\<close>

text \<open>
  C1. A candidate that \<open>findMatches\<close> considers is classified perfect exactly when the
  subject's preferred districts contain the candidate's current district, the
  candidate's preferred districts contain the subject's current district, and the grade
  levels are equal; list membership is plain equality of strings. A perfect match has
  score \<open>100\<close>, and no candidate gives more than one result, so a perfect candidate is
  not emitted as nearby as well.
\<close>

theorem perfect_match_classification:
  "(\<forall>m \<in> set (findMatches J S cs).
      (matchType m = perfect \<longleftrightarrow>
         currentDistrict (teacher m) \<in> set (preferredDistricts S) \<and>
         currentDistrict S \<in> set (preferredDistricts (teacher m)) \<and>
         gradeLevel S = gradeLevel (teacher m)) \<and>
      (matchType m = perfect \<longrightarrow> score m = Num 100)) \<and>
   (\<forall>C \<in> set cs.
      id_field C \<noteq> id_field S \<and> isActive C \<and>
      currentDistrict C \<in> set (preferredDistricts S) \<and>
      currentDistrict S \<in> set (preferredDistricts C) \<and>
      gradeLevel S = gradeLevel C \<longrightarrow>
      \<lparr>teacher = C, matchType = perfect,
       distance = calculateDistance J S C, score = Num 100\<rparr> \<in> set (findMatches J S cs)) \<and>
   mset (map teacher (findMatches J S cs)) \<subseteq># mset cs"
proof (intro conjI ballI impI)
  fix m assume "m \<in> set (findMatches J S cs)"
  then obtain c where c: "matchFor J S c = Some m"
    by (auto simp: set_findMatches)
  have t: "teacher m = c" by (rule matchFor_teacher [OF c])
  show "matchType m = perfect \<longleftrightarrow>
         currentDistrict (teacher m) \<in> set (preferredDistricts S) \<and>
         currentDistrict S \<in> set (preferredDistricts (teacher m)) \<and>
         gradeLevel S = gradeLevel (teacher m)"
    unfolding matchFor_perfect_iff [OF c] t by (simp add: checkPerfectMatch_def)
  show "score m = Num 100" if "matchType m = perfect"
    using matchFor_perfect [OF c that] by simp
next
  fix C
  assume C: "C \<in> set cs"
    and h: "id_field C \<noteq> id_field S \<and> isActive C \<and>
      currentDistrict C \<in> set (preferredDistricts S) \<and>
      currentDistrict S \<in> set (preferredDistricts C) \<and>
      gradeLevel S = gradeLevel C"
  then have "matchFor J S C = Some \<lparr>teacher = C, matchType = perfect,
       distance = calculateDistance J S C, score = Num 100\<rparr>"
    by (simp add: matchFor_def checkPerfectMatch_def)
  then show "\<lparr>teacher = C, matchType = perfect,
       distance = calculateDistance J S C, score = Num 100\<rparr> \<in> set (findMatches J S cs)"
    using C by (auto simp: set_findMatches)
next
  have "mset (map teacher (findMatches J S cs)) =
        mset (map teacher (List.map_filter (matchFor J S) cs))"
    using mset_findMatches [of J S cs] by (metis mset_map)
  also have "\<dots> \<subseteq># mset cs"
    by (rule mset_map_filter_teacher)
  finally show "mset (map teacher (findMatches J S cs)) \<subseteq># mset cs" .
qed

theorem perfect_match_classification_witness:
  "\<lparr>teacher = candidate_gaya, matchType = perfect,
    distance = calculateDistance exact_engine subject_patna candidate_gaya, score = Num 100\<rparr>
     \<in> set (findMatches exact_engine subject_patna [candidate_gaya, candidate_Gaya]) \<and>
   length (findMatches exact_engine subject_patna [candidate_gaya, candidate_Gaya]) = 1"
proof -
  have "\<lparr>teacher = candidate_gaya, matchType = perfect,
    distance = calculateDistance exact_engine subject_patna candidate_gaya, score = Num 100\<rparr>
     \<in> set (findMatches exact_engine subject_patna [candidate_gaya, candidate_Gaya])"
    using perfect_match_classification
            [of exact_engine subject_patna "[candidate_gaya, candidate_Gaya]"]
    by (simp add: subject_patna_def candidate_gaya_def blank_teacher_def)
  then show ?thesis
    by (simp add: findMatches_patna_gaya)
qed

text \<open>
  C2. A nearby result comes only from a candidate that is not a perfect match, has the
  subject's grade level, and whose distance to the subject's home is strictly below the
  subject's own distance to home and at most the subject's \<open>maxDistance\<close> (\<open>0\<close> when
  the field is \<open>null\<close>); every considered candidate of that kind gives a nearby result.
  The distance to the subject's home joins the candidate's location (school, else current,
  else district) and the subject's home (home, else preferred location, else district)
  when the coordinates found are non-zero numbers, and is \<open>0\<close> otherwise; the subject's
  own distance to home joins the explicit current and home coordinates when all four are
  present and the two districts otherwise. The result carries that distance \<open>d\<close> and the
  score \<open>max(0, 100 - floor(d / 10))\<close>, a whole number computed from the quotient as the
  engine rounds it, which is \<open>100\<close> at \<open>d = 0\<close>, \<open>91\<close> at \<open>d = 95\<close> and \<open>0\<close> at
  \<open>d = 1000\<close>.
\<close>

theorem nearby_match_rule:
  "(\<forall>m \<in> set (findMatches J S cs). matchType m = nearby \<longrightarrow>
      \<not> checkPerfectMatch S (teacher m) \<and>
      gradeLevel S = gradeLevel (teacher m) \<and>
      distance m = calculateDistanceFromTeacherToHome J (teacher m) S \<and>
      js_lt (distance m) (calculateDistanceToHome J S) \<and>
      js_le (distance m)
        (case maxDistance S of None \<Rightarrow> Num 0 | Some n \<Rightarrow> rnd J (of_int n)) \<and>
      score m =
        js_max (Num 0) (fp_sub J (Num 100) (js_floor (fp_div J (distance m) (Num 10))))) \<and>
   (\<forall>C \<in> set cs.
      id_field C \<noteq> id_field S \<and> isActive C \<and> \<not> checkPerfectMatch S C \<and>
      gradeLevel S = gradeLevel C \<and>
      js_lt (calculateDistanceFromTeacherToHome J C S) (calculateDistanceToHome J S) \<and>
      js_le (calculateDistanceFromTeacherToHome J C S)
        (case maxDistance S of None \<Rightarrow> Num 0 | Some n \<Rightarrow> rnd J (of_int n)) \<longrightarrow>
      \<lparr>teacher = C, matchType = nearby,
       distance = calculateDistanceFromTeacherToHome J C S,
       score = js_max (Num 0)
                 (fp_sub J (Num 100)
                    (js_floor (fp_div J (calculateDistanceFromTeacherToHome J C S) (Num 10))))\<rparr>
        \<in> set (findMatches J S cs)) \<and>
   calculateDistanceFromTeacherToHome J C S =
     (if coords_truthy (spec_candidate_location J C) \<and> coords_truthy (spec_subject_home J S)
      then leg_distance J (spec_candidate_location J C) (spec_subject_home J S)
      else Num 0) \<and>
   calculateDistanceToHome J S =
     (if explicit_coords J (currentLatitude S) (currentLongitude S) \<noteq> None \<and>
         explicit_coords J (homeLatitude S) (homeLongitude S) \<noteq> None
      then leg_distance J (explicit_coords J (currentLatitude S) (currentLongitude S))
                          (explicit_coords J (homeLatitude S) (homeLongitude S))
      else leg_distance J (getDistrictCoordinates J (currentDistrict S))
                          (getDistrictCoordinates J (homeDistrict S))) \<and>
   (ieee_engine J \<longrightarrow>
      (\<forall>m \<in> set (findMatches J S cs). matchType m = nearby \<longrightarrow>
         (\<exists>v w. distance m = Num v \<and> 0 \<le> v \<and> rnd J (v / 10) = Num w \<and>
                score m = Num (of_int (max 0 (100 - \<lfloor>w\<rfloor>))))) \<and>
      nearbyScore J (Num 0) = Num 100 \<and> nearbyScore J (Num 95) = Num 91 \<and>
      nearbyScore J (Num 1000) = Num 0)"
proof (intro conjI ballI impI)
  fix m assume "m \<in> set (findMatches J S cs)" and nb: "matchType m = nearby"
  then obtain c where c: "matchFor J S c = Some m"
    by (auto simp: set_findMatches)
  have t: "teacher m = c" by (rule matchFor_teacher [OF c])
  from matchFor_nearby [OF c nb]
  have np: "\<not> checkPerfectMatch S c"
    and cn: "checkNearbyMatch J S c = Some (distance m, score m)" by simp_all
  from cn [unfolded checkNearbyMatch_Some_iff]
  have g: "gradeLevel S = gradeLevel c"
    and d: "distance m = calculateDistanceFromTeacherToHome J c S"
    and sc: "score m = nearbyScore J (distance m)"
    and lt: "js_lt (distance m) (calculateDistanceToHome J S)"
    and le: "js_le (distance m) (maxDistance_num J S)" by auto
  show "\<not> checkPerfectMatch S (teacher m)" unfolding t by (rule np)
  show "gradeLevel S = gradeLevel (teacher m)" unfolding t by (rule g)
  show "distance m = calculateDistanceFromTeacherToHome J (teacher m) S"
    unfolding t by (rule d)
  show "js_lt (distance m) (calculateDistanceToHome J S)" by (rule lt)
  show "js_le (distance m)
          (case maxDistance S of None \<Rightarrow> Num 0 | Some n \<Rightarrow> rnd J (of_int n))"
    using le by (simp add: maxDistance_num_def)
  show "score m =
          js_max (Num 0) (fp_sub J (Num 100) (js_floor (fp_div J (distance m) (Num 10))))"
    using sc by (simp add: nearbyScore_def)
next
  fix C
  assume C: "C \<in> set cs"
    and h: "id_field C \<noteq> id_field S \<and> isActive C \<and> \<not> checkPerfectMatch S C \<and>
      gradeLevel S = gradeLevel C \<and>
      js_lt (calculateDistanceFromTeacherToHome J C S) (calculateDistanceToHome J S) \<and>
      js_le (calculateDistanceFromTeacherToHome J C S)
        (case maxDistance S of None \<Rightarrow> Num 0 | Some n \<Rightarrow> rnd J (of_int n))"
  then have "matchFor J S C = Some \<lparr>teacher = C, matchType = nearby,
       distance = calculateDistanceFromTeacherToHome J C S,
       score = js_max (Num 0)
                 (fp_sub J (Num 100)
                    (js_floor (fp_div J (calculateDistanceFromTeacherToHome J C S) (Num 10))))\<rparr>"
    by (simp add: matchFor_def checkNearbyMatch_def Let_def maxDistance_num_def
                  nearbyScore_def)
  then show "\<lparr>teacher = C, matchType = nearby,
       distance = calculateDistanceFromTeacherToHome J C S,
       score = js_max (Num 0)
                 (fp_sub J (Num 100)
                    (js_floor (fp_div J (calculateDistanceFromTeacherToHome J C S) (Num 10))))\<rparr>
        \<in> set (findMatches J S cs)"
    using C by (auto simp: set_findMatches)
next
  show "calculateDistanceFromTeacherToHome J C S =
     (if coords_truthy (spec_candidate_location J C) \<and> coords_truthy (spec_subject_home J S)
      then leg_distance J (spec_candidate_location J C) (spec_subject_home J S)
      else Num 0)"
    by (rule calculateDistanceFromTeacherToHome_as_leg)
next
  show "calculateDistanceToHome J S =
     (if explicit_coords J (currentLatitude S) (currentLongitude S) \<noteq> None \<and>
         explicit_coords J (homeLatitude S) (homeLongitude S) \<noteq> None
      then leg_distance J (explicit_coords J (currentLatitude S) (currentLongitude S))
                          (explicit_coords J (homeLatitude S) (homeLongitude S))
      else leg_distance J (getDistrictCoordinates J (currentDistrict S))
                          (getDistrictCoordinates J (homeDistrict S)))"
    by (rule calculateDistanceToHome_as_legs)
next
  fix m
  assume J: "ieee_engine J" and "m \<in> set (findMatches J S cs)"
    and nb: "matchType m = nearby"
  then obtain c where c: "matchFor J S c = Some m"
    by (auto simp: set_findMatches)
  from matchFor_nearby [OF c nb]
  have "checkNearbyMatch J S c = Some (distance m, score m)" by simp
  from checkNearbyMatch_SomeD [OF J this]
  obtain u where u: "distance m = Num u" "0 \<le> u" "u \<le> 25484"
    "score m = nearbyScore J (Num u)" by auto
  from nearbyScore_value [OF J u(2,3)] u
  show "\<exists>v w. distance m = Num v \<and> 0 \<le> v \<and> rnd J (v / 10) = Num w \<and>
              score m = Num (of_int (max 0 (100 - \<lfloor>w\<rfloor>)))"
    by auto
next
  assume J: "ieee_engine J"
  show "nearbyScore J (Num 0) = Num 100" "nearbyScore J (Num 95) = Num 91"
    "nearbyScore J (Num 1000) = Num 0"
    by (rule nearbyScore_values [OF J])+
qed

theorem nearby_match_rule_witness:
  "\<lparr>teacher = candidate_close, matchType = nearby,
     distance = Num (6371 * (0.1 * pi / 180)), score = Num 99\<rparr>
     \<in> set (findMatches exact_engine subject_home3
              [candidate_over_max, candidate_close, candidate_beyond_home,
               candidate_other_grade]) \<and>
   map teacher (findMatches exact_engine subject_home3
              [candidate_over_max, candidate_close, candidate_beyond_home,
               candidate_other_grade]) = [candidate_close] \<and>
   map teacher (findMatches exact_engine subject_home3_wide
              [candidate_over_max, candidate_close, candidate_beyond_home,
               candidate_other_grade]) = [candidate_close, candidate_over_max] \<and>
   nearbyScore exact_engine (Num 95) = Num 91"
proof -
  let ?L = "[candidate_over_max, candidate_close, candidate_beyond_home,
             candidate_other_grade]"
  note r = nearby_match_rule [of exact_engine subject_home3 ?L candidate_close]
  have lt: "js_lt (calculateDistanceFromTeacherToHome exact_engine candidate_close
               subject_home3) (calculateDistanceToHome exact_engine subject_home3)"
    unfolding to_home3_close home_home3 by simp
  have le: "js_le (calculateDistanceFromTeacherToHome exact_engine candidate_close
               subject_home3)
             (case maxDistance subject_home3 of None \<Rightarrow> Num 0
              | Some n \<Rightarrow> rnd exact_engine (of_int n))"
    unfolding to_home3_close using km_bounds
    by (simp add: subject_home3_def blank_teacher_def)
  have sc: "js_max (Num 0)
              (fp_sub exact_engine (Num 100)
                 (js_floor (fp_div exact_engine
                    (calculateDistanceFromTeacherToHome exact_engine candidate_close
                       subject_home3) (Num 10)))) = Num 99"
    unfolding to_home3_close nearbyScore_def [symmetric] by (rule score_close)
  from r have "\<forall>C \<in> set ?L.
      id_field C \<noteq> id_field subject_home3 \<and> isActive C \<and>
      \<not> checkPerfectMatch subject_home3 C \<and>
      gradeLevel subject_home3 = gradeLevel C \<and>
      js_lt (calculateDistanceFromTeacherToHome exact_engine C subject_home3)
            (calculateDistanceToHome exact_engine subject_home3) \<and>
      js_le (calculateDistanceFromTeacherToHome exact_engine C subject_home3)
        (case maxDistance subject_home3 of None \<Rightarrow> Num 0
         | Some n \<Rightarrow> rnd exact_engine (of_int n)) \<longrightarrow>
      \<lparr>teacher = C, matchType = nearby,
       distance = calculateDistanceFromTeacherToHome exact_engine C subject_home3,
       score = js_max (Num 0)
                 (fp_sub exact_engine (Num 100)
                    (js_floor (fp_div exact_engine
                       (calculateDistanceFromTeacherToHome exact_engine C subject_home3)
                       (Num 10))))\<rparr>
        \<in> set (findMatches exact_engine subject_home3 ?L)"
    by blast
  then have "id_field candidate_close \<noteq> id_field subject_home3 \<and> isActive candidate_close \<and>
      \<not> checkPerfectMatch subject_home3 candidate_close \<and>
      gradeLevel subject_home3 = gradeLevel candidate_close \<and>
      js_lt (calculateDistanceFromTeacherToHome exact_engine candidate_close subject_home3)
            (calculateDistanceToHome exact_engine subject_home3) \<and>
      js_le (calculateDistanceFromTeacherToHome exact_engine candidate_close subject_home3)
        (case maxDistance subject_home3 of None \<Rightarrow> Num 0
         | Some n \<Rightarrow> rnd exact_engine (of_int n)) \<longrightarrow>
      \<lparr>teacher = candidate_close, matchType = nearby,
       distance = calculateDistanceFromTeacherToHome exact_engine candidate_close
                    subject_home3,
       score = js_max (Num 0)
                 (fp_sub exact_engine (Num 100)
                    (js_floor (fp_div exact_engine
                       (calculateDistanceFromTeacherToHome exact_engine candidate_close
                          subject_home3)
                       (Num 10))))\<rparr>
        \<in> set (findMatches exact_engine subject_home3 ?L)"
    by simp
  with lt le have "\<lparr>teacher = candidate_close, matchType = nearby,
       distance = calculateDistanceFromTeacherToHome exact_engine candidate_close
                    subject_home3,
       score = js_max (Num 0)
                 (fp_sub exact_engine (Num 100)
                    (js_floor (fp_div exact_engine
                       (calculateDistanceFromTeacherToHome exact_engine candidate_close
                          subject_home3)
                       (Num 10))))\<rparr>
        \<in> set (findMatches exact_engine subject_home3 ?L)"
    by (simp add: ids_home3 grades_home3 not_perfect_home3)
  then have 1: "\<lparr>teacher = candidate_close, matchType = nearby,
       distance = Num (6371 * (0.1 * pi / 180)), score = Num 99\<rparr>
        \<in> set (findMatches exact_engine subject_home3 ?L)"
    unfolding sc unfolding to_home3_close .
  have 2: "map teacher (findMatches exact_engine subject_home3 ?L) = [candidate_close]"
    unfolding findMatches_home3 by simp
  have 3: "map teacher (findMatches exact_engine subject_home3_wide ?L) =
             [candidate_close, candidate_over_max]"
    unfolding findMatches_home3_wide by simp
  from r ieee_engine_exact have 4: "nearbyScore exact_engine (Num 95) = Num 91"
    by blast
  from 1 2 3 4 show ?thesis by blast
qed




text \<open>
  C4. No result of \<open>findMatches\<close> is for the subject itself (a candidate with the
  subject's id) or for an inactive candidate.
\<close>

theorem no_self_no_inactive:
  "\<forall>m \<in> set (findMatches J S cs).
     id_field (teacher m) \<noteq> id_field S \<and> teacher m \<noteq> S \<and>
     isActive (teacher m) \<and> teacher m \<in> set cs"
proof
  fix m assume "m \<in> set (findMatches J S cs)"
  then obtain c where c: "c \<in> set cs" "matchFor J S c = Some m"
    by (auto simp: set_findMatches)
  have t: "teacher m = c" by (rule matchFor_teacher [OF c(2)])
  show "id_field (teacher m) \<noteq> id_field S \<and> teacher m \<noteq> S \<and>
        isActive (teacher m) \<and> teacher m \<in> set cs"
    unfolding t using matchFor_considered [OF c(2)] c(1) by auto
qed

theorem no_self_no_inactive_witness:
  "findMatches exact_engine subject_patna [subject_patna, candidate_inactive, candidate_gaya] =
     [\<lparr>teacher = candidate_gaya, matchType = perfect,
       distance = calculateDistance exact_engine subject_patna candidate_gaya,
       score = Num 100\<rparr>] \<and>
   id_field candidate_gaya \<noteq> id_field subject_patna \<and> isActive candidate_gaya"
  using no_self_no_inactive
          [of exact_engine subject_patna "[subject_patna, candidate_inactive, candidate_gaya]"]
  by (simp add: findMatches_patna_three)

text \<open>
  C5 (as amended). \<open>calculateDistanceFromTeacherToHome\<close> resolves its two endpoints
  independently, each along its chain (school, current, district for the candidate; home,
  preferred location, district for the subject's home), provided the coordinates found
  are non-zero numbers. \<open>calculateDistance\<close> and \<open>calculateDistanceToHome\<close> take the
  explicit coordinates only when both endpoints have them, and otherwise look both
  endpoints up by district; they agree with independent resolution when both endpoints or
  neither have explicit coordinates. In all three, an endpoint that no source resolves
  makes the distance \<open>0\<close>.
\<close>

theorem coordinate_resolution:
  "(coords_truthy (spec_candidate_location J c) \<and> coords_truthy (spec_subject_home J h) \<longrightarrow>
      calculateDistanceFromTeacherToHome J c h =
        leg_distance J (spec_candidate_location J c) (spec_subject_home J h)) \<and>
   calculateDistance J t1 t2 =
     (if explicit_coords J (currentLatitude t1) (currentLongitude t1) \<noteq> None \<and>
         explicit_coords J (currentLatitude t2) (currentLongitude t2) \<noteq> None
      then leg_distance J (explicit_coords J (currentLatitude t1) (currentLongitude t1))
                          (explicit_coords J (currentLatitude t2) (currentLongitude t2))
      else leg_distance J (getDistrictCoordinates J (currentDistrict t1))
                          (getDistrictCoordinates J (currentDistrict t2))) \<and>
   calculateDistanceToHome J t =
     (if explicit_coords J (currentLatitude t) (currentLongitude t) \<noteq> None \<and>
         explicit_coords J (homeLatitude t) (homeLongitude t) \<noteq> None
      then leg_distance J (explicit_coords J (currentLatitude t) (currentLongitude t))
                          (explicit_coords J (homeLatitude t) (homeLongitude t))
      else leg_distance J (getDistrictCoordinates J (currentDistrict t))
                          (getDistrictCoordinates J (homeDistrict t))) \<and>
   ((explicit_coords J (currentLatitude t1) (currentLongitude t1) = None \<longleftrightarrow>
     explicit_coords J (currentLatitude t2) (currentLongitude t2) = None) \<longrightarrow>
      calculateDistance J t1 t2 =
        leg_distance J (spec_current_location J t1) (spec_current_location J t2)) \<and>
   ((explicit_coords J (currentLatitude t) (currentLongitude t) = None \<longleftrightarrow>
     explicit_coords J (homeLatitude t) (homeLongitude t) = None) \<longrightarrow>
      calculateDistanceToHome J t =
        leg_distance J (spec_current_location J t) (spec_home_location J t)) \<and>
   (spec_current_location J t1 = None \<or> spec_current_location J t2 = None \<longrightarrow>
      calculateDistance J t1 t2 = Num 0) \<and>
   (spec_current_location J t = None \<or> spec_home_location J t = None \<longrightarrow>
      calculateDistanceToHome J t = Num 0) \<and>
   (spec_candidate_location J c = None \<or> spec_subject_home J h = None \<longrightarrow>
      calculateDistanceFromTeacherToHome J c h = Num 0)"
proof (intro conjI impI)
  assume "coords_truthy (spec_candidate_location J c) \<and> coords_truthy (spec_subject_home J h)"
  then show "calculateDistanceFromTeacherToHome J c h =
        leg_distance J (spec_candidate_location J c) (spec_subject_home J h)"
    by (simp add: calculateDistanceFromTeacherToHome_as_leg)
next
  show "calculateDistance J t1 t2 =
     (if explicit_coords J (currentLatitude t1) (currentLongitude t1) \<noteq> None \<and>
         explicit_coords J (currentLatitude t2) (currentLongitude t2) \<noteq> None
      then leg_distance J (explicit_coords J (currentLatitude t1) (currentLongitude t1))
                          (explicit_coords J (currentLatitude t2) (currentLongitude t2))
      else leg_distance J (getDistrictCoordinates J (currentDistrict t1))
                          (getDistrictCoordinates J (currentDistrict t2)))"
    by (rule calculateDistance_as_legs)
next
  show "calculateDistanceToHome J t =
     (if explicit_coords J (currentLatitude t) (currentLongitude t) \<noteq> None \<and>
         explicit_coords J (homeLatitude t) (homeLongitude t) \<noteq> None
      then leg_distance J (explicit_coords J (currentLatitude t) (currentLongitude t))
                          (explicit_coords J (homeLatitude t) (homeLongitude t))
      else leg_distance J (getDistrictCoordinates J (currentDistrict t))
                          (getDistrictCoordinates J (homeDistrict t)))"
    by (rule calculateDistanceToHome_as_legs)
next
  assume "explicit_coords J (currentLatitude t1) (currentLongitude t1) = None \<longleftrightarrow>
     explicit_coords J (currentLatitude t2) (currentLongitude t2) = None"
  then show "calculateDistance J t1 t2 =
        leg_distance J (spec_current_location J t1) (spec_current_location J t2)"
    unfolding calculateDistance_as_legs
    by (auto simp: spec_current_location_def first_resolved_Cons split: option.splits)
next
  assume "explicit_coords J (currentLatitude t) (currentLongitude t) = None \<longleftrightarrow>
     explicit_coords J (homeLatitude t) (homeLongitude t) = None"
  then show "calculateDistanceToHome J t =
        leg_distance J (spec_current_location J t) (spec_home_location J t)"
    unfolding calculateDistanceToHome_as_legs
    by (auto simp: spec_current_location_def spec_home_location_def first_resolved_Cons
             split: option.splits)
next
  assume "spec_current_location J t1 = None \<or> spec_current_location J t2 = None"
  then show "calculateDistance J t1 t2 = Num 0" by (rule calculateDistance_unresolved)
next
  assume "spec_current_location J t = None \<or> spec_home_location J t = None"
  then show "calculateDistanceToHome J t = Num 0" by (rule calculateDistanceToHome_unresolved)
next
  assume "spec_candidate_location J c = None \<or> spec_subject_home J h = None"
  then show "calculateDistanceFromTeacherToHome J c h = Num 0"
    by (rule calculateDistanceFromTeacherToHome_unresolved)
qed

theorem coordinate_resolution_witness:
  "calculateDistanceFromTeacherToHome exact_engine candidate_school subject_far =
     haversineDistance exact_engine (Num 3) (Num 1) (Num 1) (Num 1) \<and>
   calculateDistance exact_engine candidate_nowhere teacher_patna = Num 0"
proof -
  have n: "spec_current_location exact_engine candidate_nowhere = None"
    by (simp add: spec_current_location_def explicit_coords_def str_truthy_def
                  candidate_nowhere_def blank_teacher_def district_x)
  note r = coordinate_resolution
             [of exact_engine candidate_school subject_far candidate_nowhere teacher_patna
                 blank_teacher]
  from r have 1:
    "coords_truthy (spec_candidate_location exact_engine candidate_school) \<and>
     coords_truthy (spec_subject_home exact_engine subject_far) \<longrightarrow>
       calculateDistanceFromTeacherToHome exact_engine candidate_school subject_far =
         leg_distance exact_engine (spec_candidate_location exact_engine candidate_school)
                      (spec_subject_home exact_engine subject_far)"
    by (rule conjunct1)
  from r have 2:
    "spec_current_location exact_engine candidate_nowhere = None \<or>
     spec_current_location exact_engine teacher_patna = None \<longrightarrow>
       calculateDistance exact_engine candidate_nowhere teacher_patna = Num 0"
    by blast
  from 1 have "calculateDistanceFromTeacherToHome exact_engine candidate_school subject_far =
     haversineDistance exact_engine (Num 3) (Num 1) (Num 1) (Num 1)"
    unfolding spec_candidate_school spec_home_far
    by (simp add: coords_truthy_def)
  moreover from 2 n
  have "calculateDistance exact_engine candidate_nowhere teacher_patna = Num 0"
    by simp
  ultimately show ?thesis by simp
qed

text \<open>
  The claim as stated fails for \<open>calculateDistance\<close>: one teacher has explicit current
  coordinates and an unknown district, the other has no explicit coordinates and the
  district \<open>patna\<close>. Independent resolution gives both endpoints coordinates, one degree
  of latitude apart; the function skips the explicit coordinates, finds no district for
  the first teacher, and returns \<open>0\<close>, on every engine.
\<close>

theorem coordinate_resolution_counterexample:
  "spec_current_location exact_engine teacher_gps = Some (Num 26, Num 85.1376) \<and>
   spec_current_location exact_engine teacher_patna = Some (Num 25.5941, Num 85.1376) \<and>
   (\<forall>J. calculateDistance J teacher_gps teacher_patna = Num 0) \<and>
   leg_distance exact_engine (spec_current_location exact_engine teacher_gps)
     (spec_current_location exact_engine teacher_patna) \<noteq> Num 0 \<and>
   calculateDistance exact_engine teacher_gps teacher_patna \<noteq>
     leg_distance exact_engine (spec_current_location exact_engine teacher_gps)
       (spec_current_location exact_engine teacher_patna)"
proof -
  have g: "spec_current_location exact_engine teacher_gps = Some (Num 26, Num 85.1376)"
    by (simp add: spec_current_location_def explicit_coords_def str_truthy_def
                  teacher_gps_def blank_teacher_def parseField_def parse_exact)
  have p: "spec_current_location exact_engine teacher_patna = Some (Num 25.5941, Num 85.1376)"
    by (simp add: spec_current_location_def explicit_coords_def str_truthy_def
                  teacher_patna_def blank_teacher_def district_patna)
  have c: "calculateDistance J teacher_gps teacher_patna = Num 0" for J
    by (simp add: calculateDistance_def str_truthy_def teacher_gps_def teacher_patna_def
                  blank_teacher_def district_x)
  have "haversineDistance exact_engine (Num 26) (Num 85.1376) (Num 25.5941) (Num 85.1376) =
          Num (6371 * (\<bar>26 - 25.5941\<bar> * pi / 180))"
    by (rule exact_same_lon_abs) simp
  then have l: "leg_distance exact_engine (spec_current_location exact_engine teacher_gps)
             (spec_current_location exact_engine teacher_patna) \<noteq> Num 0"
    unfolding g p by simp
  show ?thesis using g p c l by simp
qed




text \<open>
  C7. The perfect-match test is symmetric: when it holds for \<open>(S, C)\<close> it holds for
  \<open>(C, S)\<close>.
\<close>

theorem checkPerfectMatch_symmetric:
  "checkPerfectMatch S C \<Longrightarrow> checkPerfectMatch C S"
  by (auto simp: checkPerfectMatch_def)

theorem checkPerfectMatch_symmetric_witness:
  "checkPerfectMatch subject_patna candidate_gaya \<and>
   checkPerfectMatch candidate_gaya subject_patna"
proof -
  have h: "checkPerfectMatch subject_patna candidate_gaya"
    by (simp add: checkPerfectMatch_def subject_patna_def candidate_gaya_def blank_teacher_def)
  show ?thesis
    using h checkPerfectMatch_symmetric [OF h] by simp
qed

text \<open>
  C8 (as amended). On an engine with IEEE arithmetic, \<open>haversineDistance\<close> gives the
  same value with its two coordinate pairs swapped, so the two results are \<open>==\<close> unless
  that value is \<open>NaN\<close>, and the distance from a pair of finite numbers to itself is \<open>0\<close>.
  A coordinate that is \<open>NaN\<close> or infinite makes the result \<open>NaN\<close>, on every engine.
\<close>

theorem haversineDistance_symmetric_and_zero:
  assumes "ieee_engine J"
  shows "haversineDistance J lat1 lon1 lat2 lon2 = haversineDistance J lat2 lon2 lat1 lon1 \<and>
   (haversineDistance J lat1 lon1 lat2 lon2 \<noteq> NaN \<longrightarrow>
      js_eq (haversineDistance J lat1 lon1 lat2 lon2)
            (haversineDistance J lat2 lon2 lat1 lon1)) \<and>
   (is_double J a \<and> is_double J b \<longrightarrow>
      haversineDistance J (Num a) (Num b) (Num a) (Num b) = Num 0) \<and>
   ((\<forall>v. lat1 \<noteq> Num v) \<or> (\<forall>v. lon1 \<noteq> Num v) \<or>
    (\<forall>v. lat2 \<noteq> Num v) \<or> (\<forall>v. lon2 \<noteq> Num v) \<longrightarrow>
      haversineDistance J lat1 lon1 lat2 lon2 = NaN)"
proof (intro conjI impI)
  show s: "haversineDistance J lat1 lon1 lat2 lon2 = haversineDistance J lat2 lon2 lat1 lon1"
    by (rule haversineDistance_sym [OF assms])
  show "js_eq (haversineDistance J lat1 lon1 lat2 lon2)
              (haversineDistance J lat2 lon2 lat1 lon1)"
    if "haversineDistance J lat1 lon1 lat2 lon2 \<noteq> NaN"
    using that unfolding s [symmetric]
    by (cases "haversineDistance J lat1 lon1 lat2 lon2") simp_all
  show "haversineDistance J (Num a) (Num b) (Num a) (Num b) = Num 0"
    if "is_double J a \<and> is_double J b"
    using haversineDistance_same [OF assms, of a b] that by simp
  show "haversineDistance J lat1 lon1 lat2 lon2 = NaN"
    if "(\<forall>v. lat1 \<noteq> Num v) \<or> (\<forall>v. lon1 \<noteq> Num v) \<or>
        (\<forall>v. lat2 \<noteq> Num v) \<or> (\<forall>v. lon2 \<noteq> Num v)"
    by (rule haversineDistance_not_Num [OF that])
qed

theorem haversineDistance_symmetric_and_zero_witness:
  "haversineDistance exact_engine (Num 2) (Num 1) (Num 7) (Num 1) =
     haversineDistance exact_engine (Num 7) (Num 1) (Num 2) (Num 1) \<and>
   js_eq (haversineDistance exact_engine (Num 2) (Num 1) (Num 7) (Num 1))
         (haversineDistance exact_engine (Num 7) (Num 1) (Num 2) (Num 1)) \<and>
   haversineDistance exact_engine (Num 2) (Num 1) (Num 7) (Num 1) =
     Num (6371 * (5 * pi / 180)) \<and>
   haversineDistance exact_engine (Num 26) (Num 85.1376) (Num 26) (Num 85.1376) = Num 0"
proof -
  note r = haversineDistance_symmetric_and_zero
             [OF ieee_engine_exact, of "Num 2" "Num 1" "Num 7" "Num 1" 26 "85.1376"]
  have v: "haversineDistance exact_engine (Num 2) (Num 1) (Num 7) (Num 1) =
             Num (6371 * (5 * pi / 180))"
    using exact_same_lon_abs [of 2 7 1] by simp
  from r have 1: "haversineDistance exact_engine (Num 2) (Num 1) (Num 7) (Num 1) =
     haversineDistance exact_engine (Num 7) (Num 1) (Num 2) (Num 1)"
    by (rule conjunct1)
  from r have "haversineDistance exact_engine (Num 2) (Num 1) (Num 7) (Num 1) \<noteq> NaN \<longrightarrow>
      js_eq (haversineDistance exact_engine (Num 2) (Num 1) (Num 7) (Num 1))
            (haversineDistance exact_engine (Num 7) (Num 1) (Num 2) (Num 1))"
    by blast
  with v have 2: "js_eq (haversineDistance exact_engine (Num 2) (Num 1) (Num 7) (Num 1))
            (haversineDistance exact_engine (Num 7) (Num 1) (Num 2) (Num 1))"
    by simp
  from r have "is_double exact_engine 26 \<and> is_double exact_engine 85.1376 \<longrightarrow>
      haversineDistance exact_engine (Num 26) (Num 85.1376) (Num 26) (Num 85.1376) = Num 0"
    by blast
  then have 3:
    "haversineDistance exact_engine (Num 26) (Num 85.1376) (Num 26) (Num 85.1376) = Num 0"
    by simp
  from 1 2 v 3 show ?thesis by blast
qed

text \<open>
  The claim C8 as stated fails at a coordinate pair that is not a pair of finite numbers,
  such as the \<open>NaN\<close> that \<open>parseFloat\<close> returns for a malformed string: the distance from
  the pair to itself is \<open>NaN\<close>, which is \<open>==\<close> neither to \<open>0\<close> nor to the distance with
  the pairs swapped. The same holds for an infinite coordinate.
\<close>

theorem haversineDistance_counterexample:
  "\<forall>J. haversineDistance J NaN (Num 0) NaN (Num 0) = NaN \<and>
       \<not> js_eq (haversineDistance J NaN (Num 0) NaN (Num 0)) (Num 0) \<and>
       \<not> js_eq (haversineDistance J NaN (Num 0) (Num 1) (Num 0))
               (haversineDistance J (Num 1) (Num 0) NaN (Num 0)) \<and>
       haversineDistance J (Infinity True) (Num 0) (Infinity True) (Num 0) = NaN \<and>
       \<not> js_eq (haversineDistance J (Infinity True) (Num 0) (Infinity True) (Num 0)) (Num 0)"
proof (intro allI)
  fix J
  have "haversineDistance J NaN (Num 0) NaN (Num 0) = NaN"
    "haversineDistance J NaN (Num 0) (Num 1) (Num 0) = NaN"
    "haversineDistance J (Infinity True) (Num 0) (Infinity True) (Num 0) = NaN"
    by (rule haversineDistance_not_Num; simp)+
  then show "haversineDistance J NaN (Num 0) NaN (Num 0) = NaN \<and>
       \<not> js_eq (haversineDistance J NaN (Num 0) NaN (Num 0)) (Num 0) \<and>
       \<not> js_eq (haversineDistance J NaN (Num 0) (Num 1) (Num 0))
               (haversineDistance J (Num 1) (Num 0) NaN (Num 0)) \<and>
       haversineDistance J (Infinity True) (Num 0) (Infinity True) (Num 0) = NaN \<and>
       \<not> js_eq (haversineDistance J (Infinity True) (Num 0) (Infinity True) (Num 0)) (Num 0)"
    by simp
qed

text \<open>
  C9 (as amended). On an engine with IEEE arithmetic, a subject whose own distance to
  home is \<open>0\<close> gets no nearby result, whatever the candidates; that distance is \<open>0\<close>
  when the current or the home location is unresolved, and when the explicit current and
  home coordinates are the same finite numbers. The distance from a candidate to the
  subject's home is \<open>\<ge> 0\<close> or \<open>NaN\<close>, so it is never strictly below \<open>0\<close>.
\<close>

theorem no_nearby_when_home_distance_zero:
  assumes "ieee_engine J"
  shows "(calculateDistanceToHome J S = Num 0 \<longrightarrow>
      (\<forall>m \<in> set (findMatches J S cs). matchType m \<noteq> nearby)) \<and>
   (spec_current_location J S = None \<or> spec_home_location J S = None \<longrightarrow>
      calculateDistanceToHome J S = Num 0) \<and>
   (explicit_coords J (currentLatitude S) (currentLongitude S) = Some (Num x, Num y) \<and>
    explicit_coords J (homeLatitude S) (homeLongitude S) = Some (Num x, Num y) \<longrightarrow>
      calculateDistanceToHome J S = Num 0) \<and>
   \<not> js_lt (calculateDistanceFromTeacherToHome J C S) (Num 0) \<and>
   (calculateDistanceFromTeacherToHome J C S = NaN \<or>
    js_le (Num 0) (calculateDistanceFromTeacherToHome J C S))"
proof (intro conjI impI ballI)
  show "\<not> js_lt (calculateDistanceFromTeacherToHome J C S) (Num 0)"
    using calculateDistanceFromTeacherToHome_shape [OF assms, of C S] by auto
next
  show "calculateDistanceFromTeacherToHome J C S = NaN \<or>
        js_le (Num 0) (calculateDistanceFromTeacherToHome J C S)"
    using calculateDistanceFromTeacherToHome_shape [OF assms, of C S] by auto
next
  assume "spec_current_location J S = None \<or> spec_home_location J S = None"
  then show "calculateDistanceToHome J S = Num 0"
    by (rule calculateDistanceToHome_unresolved)
next
  assume "explicit_coords J (currentLatitude S) (currentLongitude S) = Some (Num x, Num y) \<and>
    explicit_coords J (homeLatitude S) (homeLongitude S) = Some (Num x, Num y)"
  then show "calculateDistanceToHome J S = Num 0"
    using calculateDistanceToHome_same_point [OF assms, of S x y] by simp
next
  fix m assume z: "calculateDistanceToHome J S = Num 0" and "m \<in> set (findMatches J S cs)"
  then obtain c where c: "matchFor J S c = Some m"
    by (auto simp: set_findMatches)
  show "matchType m \<noteq> nearby"
  proof
    assume "matchType m = nearby"
    from matchFor_nearby [OF c this] checkNearbyMatch_home_zero [OF assms z, of c]
    show False by simp
  qed
qed

theorem no_nearby_when_home_distance_zero_witness:
  "calculateDistanceToHome exact_engine subject_patna = Num 0 \<and>
   filter (\<lambda>m. matchType m = nearby)
     (findMatches exact_engine subject_patna [candidate_gaya, candidate_nowhere]) = []"
  using no_nearby_when_home_distance_zero
          [OF ieee_engine_exact, of subject_patna "[candidate_gaya, candidate_nowhere]"
              0 0 candidate_gaya]
  by (simp add: home_patna filter_empty_conv)

text \<open>
  The last clause of the claim C9 as stated fails: a candidate whose school latitude is
  the string \<open>Infinity\<close> has the distance \<open>NaN\<close> to the home of a subject with home
  coordinates, and \<open>NaN >= 0\<close> is false.
\<close>

theorem candidate_distance_counterexample:
  "calculateDistanceFromTeacherToHome exact_engine candidate_infinity subject_far = NaN \<and>
   \<not> js_le (Num 0)
       (calculateDistanceFromTeacherToHome exact_engine candidate_infinity subject_far)"
  by (simp add: to_far_infinity)

text \<open>
  C10. \<open>findMatches\<close> does not read the subject's own \<open>isActive\<close> flag: two subjects
  that differ in that field only get the same result list.
\<close>

theorem findMatches_ignores_subject_isActive:
  "findMatches J (S\<lparr>isActive := b\<rparr>) cs = findMatches J S cs"
proof -
  have "matchFor J (S\<lparr>isActive := b\<rparr>) = matchFor J S"
    by (rule ext) (rule matchFor_subject_isActive)
  then show ?thesis by (simp add: findMatches_map_filter)
qed

end
